theory Spec2Isabelle
  imports Main
begin

section \<open>Data model (types.ts)\<close>

text \<open>
  A JavaScript string is modelled as a \<open>string\<close>: one \<open>char\<close> per UTF-16 code unit
  below 256, which is what \<open>charCodeAt\<close> reads. A \<open>Message\<close> is an object with the two
  members of the interface of types.ts. An object keeps its members in the order in
  which they were written, and \<open>JSON.stringify\<close> emits them in that order, so the order
  is part of the value here. Every place of the repository that builds a message
  writes \<open>role\<close> first; \<open>generateCacheKey\<close> takes whatever object it is given.
\<close>

datatype role = System | User | Assistant

datatype member_order = RoleFirst | ContentFirst

record message =
  role :: role
  content :: string
  members :: member_order

text \<open>
  A JavaScript number, as far as this program looks at it: it is compared with zero,
  tested for being a number at all, and printed. A finite non-zero double is kept as the
  decimal that \<open>Number::toString\<close> prints: \<open>Decimal neg s n\<close> is
  \<open>(-1)^neg * s * 10^(n - k)\<close>, where \<open>k\<close> is the number of digits of \<open>s\<close>, with
  \<open>s\<close> positive and not a multiple of ten (the shortest digit string that reads back
  as the same double). Both zeros print alike and are one value here.
\<close>

datatype jsnumber = NaN | PosInfinity | NegInfinity | Zero | Decimal bool nat int

section \<open>Printing numbers and strings\<close>

text \<open>The digit of value \<open>d\<close> below 36: \<open>0\<close>..\<open>9\<close>, then \<open>a\<close>..\<open>z\<close>.\<close>

definition digitChar :: "nat \<Rightarrow> char" where
  "digitChar d = (if d < 10 then char_of (48 + d) else char_of (87 + d))"

text \<open>
  \<open>Number.prototype.toString(radix)\<close> on a non-negative integer. The program uses the
  radices 10 and 36; a radix below 2, for which JavaScript throws, is cut off here so
  that the recursion ends.
\<close>

function toRadix :: "nat \<Rightarrow> nat \<Rightarrow> string" where
  "toRadix b n =
     (if n < b \<or> b < 2 then [digitChar n]
      else toRadix b (n div b) @ [digitChar (n mod b)])"
  by pat_completeness auto
termination
  by (relation "measure snd") auto

declare toRadix.simps [simp del]

text \<open>
  \<open>Number::toString\<close> of ECMAScript for a positive finite number with digits \<open>s\<close> and
  decimal exponent \<open>n\<close>: plain digits with trailing zeros, a decimal point inside the
  digits, a leading \<open>0.\<close>, or exponent notation, in the order of the standard.
\<close>

definition positiveToString :: "nat \<Rightarrow> int \<Rightarrow> string" where
  "positiveToString s n =
     (let ds = toRadix 10 s; k = int (length ds) in
      if k \<le> n \<and> n \<le> 21 then ds @ replicate (nat (n - k)) (CHR ''0'')
      else if 0 < n \<and> n \<le> 21 then take (nat n) ds @ ''.'' @ drop (nat n) ds
      else if - 6 < n \<and> n \<le> 0 then ''0.'' @ replicate (nat (- n)) (CHR ''0'') @ ds
      else
        (let e = n - 1;
             es = (if e < 0 then ''-'' else ''+'') @ toRadix 10 (nat \<bar>e\<bar>)
         in if k = 1 then ds @ ''e'' @ es
            else take 1 ds @ ''.'' @ drop 1 ds @ ''e'' @ es))"

fun numberToString :: "jsnumber \<Rightarrow> string" where
  "numberToString NaN = ''NaN''"
| "numberToString PosInfinity = ''Infinity''"
| "numberToString NegInfinity = ''-Infinity''"
| "numberToString Zero = ''0''"
| "numberToString (Decimal neg s n) = (if neg then ''-'' else '''') @ positiveToString s n"

text \<open>\<open>JSON.stringify\<close> of a number: a finite one prints, the others become \<open>null\<close>.\<close>

fun stringifyNumber :: "jsnumber \<Rightarrow> string" where
  "stringifyNumber NaN = ''null''"
| "stringifyNumber PosInfinity = ''null''"
| "stringifyNumber NegInfinity = ''null''"
| "stringifyNumber x = numberToString x"

text \<open>
  \<open>QuoteJSONString\<close>: the two-character escapes, \<open>\u00XX\<close> for the other control
  characters, every other code unit as it is.
\<close>

definition quoteChar :: "char \<Rightarrow> string" where
  "quoteChar c =
     (if c = CHR 0x08 then [CHR 0x5C, CHR ''b'']
      else if c = CHR 0x09 then [CHR 0x5C, CHR ''t'']
      else if c = CHR 0x0A then [CHR 0x5C, CHR ''n'']
      else if c = CHR 0x0C then [CHR 0x5C, CHR ''f'']
      else if c = CHR 0x0D then [CHR 0x5C, CHR ''r'']
      else if c = CHR 0x22 then [CHR 0x5C, CHR 0x22]
      else if c = CHR 0x5C then [CHR 0x5C, CHR 0x5C]
      else if (of_char c :: nat) < 32
        then [CHR 0x5C, CHR ''u'', CHR ''0'', CHR ''0'',
              digitChar (of_char c div 16), digitChar (of_char c mod 16)]
      else [c])"

definition quoteJSONString :: "string \<Rightarrow> string" where
  "quoteJSONString s = [CHR 0x22] @ concat (map quoteChar s) @ [CHR 0x22]"

fun joinWith :: "string \<Rightarrow> string list \<Rightarrow> string" where
  "joinWith sep [] = []"
| "joinWith sep [x] = x"
| "joinWith sep (x # y # ys) = x @ sep @ joinWith sep (y # ys)"

fun stringifyRole :: "role \<Rightarrow> string" where
  "stringifyRole System = quoteJSONString ''system''"
| "stringifyRole User = quoteJSONString ''user''"
| "stringifyRole Assistant = quoteJSONString ''assistant''"

text \<open>\<open>JSON.stringify\<close> of a message: its two members, in the order the object has them.\<close>

definition stringifyMessage :: "message \<Rightarrow> string" where
  \<open>stringifyMessage m =
     (case members m of
        RoleFirst \<Rightarrow>
          ''{"role":'' @ stringifyRole (role m) @ '',"content":'' @ quoteJSONString (content m) @ ''}''
      | ContentFirst \<Rightarrow>
          ''{"content":'' @ quoteJSONString (content m) @ '',"role":'' @ stringifyRole (role m) @ ''}'')\<close>

text \<open>
  The text of \<open>temperature ?? null\<close>. The temperature argument is \<open>None\<close> when the caller
  passes \<open>undefined\<close>.
\<close>

definition stringifyTemperature :: "jsnumber option \<Rightarrow> string" where
  "stringifyTemperature temperature =
     (case temperature of None \<Rightarrow> ''null'' | Some t \<Rightarrow> stringifyNumber t)"

text \<open>\<open>JSON.stringify({messages, temperature: temperature ?? null})\<close>.\<close>

definition stringifyPayload :: "message list \<Rightarrow> jsnumber option \<Rightarrow> string" where
  \<open>stringifyPayload messages temperature =
     ''{"messages":['' @ joinWith '','' (map stringifyMessage messages) @ ''],"temperature":''
       @ stringifyTemperature temperature @ ''}''\<close>

section \<open>Fingerprint (apiService.ts, generateCacheKey)\<close>

text \<open>
  \<open>ToInt32\<close>, which \<open><<\<close> and \<open>&\<close> apply to their operands and results. Between the
  two the subtraction and the addition are exact: the values stay far below \<open>2^53\<close>.
\<close>

definition toInt32 :: "int \<Rightarrow> int" where
  "toInt32 x = (x + 2147483648) mod 4294967296 - 2147483648"

text \<open>One round of the loop: \<open>hash = ((hash << 5) - hash) + char; hash = hash & hash\<close>.\<close>

definition hashStep :: "int \<Rightarrow> char \<Rightarrow> int" where
  "hashStep hash c = toInt32 ((toInt32 (hash * 32) - hash) + int (of_char c))"

definition hashString :: "string \<Rightarrow> int" where
  "hashString jsonString = foldl hashStep 0 jsonString"

definition generateCacheKey :: "message list \<Rightarrow> jsnumber option \<Rightarrow> string" where
  "generateCacheKey messages temperature =
     (let jsonString = stringifyPayload messages temperature;
          hash = hashString jsonString
      in take 32 (toRadix 36 (nat \<bar>hash\<bar>)))"

section \<open>JSON values and the JavaScript operations on them\<close>

text \<open>
  A value that \<open>JSON.parse\<close> returns. The members of an object have distinct names
  (\<open>JSON.parse\<close> keeps one value for a repeated name). \<open>undefined\<close> is not a JSON
  value: where an expression can be \<open>undefined\<close> its model is a \<open>json option\<close>, and
  \<open>None\<close> is \<open>undefined\<close>.
\<close>

datatype json =
    JNull
  | JBool bool
  | JNum jsnumber
  | JStr string
  | JArr "json list"
  | JObj "(string \<times> json) list"

text \<open>\<open>ToBoolean\<close>: what \<open>if (v)\<close> and \<open>v || d\<close> test.\<close>

fun truthy :: "json \<Rightarrow> bool" where
  "truthy JNull = False"
| "truthy (JBool b) = b"
| "truthy (JNum x) = (x \<noteq> Zero \<and> x \<noteq> NaN)"
| "truthy (JStr s) = (s \<noteq> [])"
| "truthy (JArr xs) = True"
| "truthy (JObj kvs) = True"

text \<open>
  \<open>v.name\<close> for a value that is neither \<open>null\<close> nor \<open>undefined\<close>, for the names this
  program reads (\<open>choices\<close>, \<open>message\<close>, \<open>delta\<close>, \<open>content\<close>): only an object can have
  one of them, no array, string, number or boolean has or inherits a property of these
  names.
\<close>

fun getMember :: "json \<Rightarrow> string \<Rightarrow> json option" where
  "getMember (JObj kvs) name = map_of kvs name"
| "getMember v name = None"

text \<open>
  \<open>v[0]\<close> for a value that is neither \<open>null\<close> nor \<open>undefined\<close>: the first element of an
  array, the first code unit of a string, the member \<open>"0"\<close> of an object.
\<close>

fun first :: "json \<Rightarrow> json option" where
  "first (JArr []) = None"
| "first (JArr (x # xs)) = Some x"
| "first (JStr []) = None"
| "first (JStr (c # cs)) = Some (JStr [c])"
| "first (JObj kvs) = map_of kvs ''0''"
| "first v = None"

text \<open>\<open>v?.name\<close>: \<open>undefined\<close> when \<open>v\<close> is \<open>null\<close> or \<open>undefined\<close>.\<close>

fun optMember :: "json option \<Rightarrow> string \<Rightarrow> json option" where
  "optMember None name = None"
| "optMember (Some JNull) name = None"
| "optMember (Some v) name = getMember v name"

text \<open>\<open>v?.[0]\<close>.\<close>

fun optFirst :: "json option \<Rightarrow> json option" where
  "optFirst None = None"
| "optFirst (Some JNull) = None"
| "optFirst (Some v) = first v"

text \<open>\<open>v || ''\<close>.\<close>

fun orEmpty :: "json option \<Rightarrow> json" where
  "orEmpty None = JStr []"
| "orEmpty (Some v) = (if truthy v then v else JStr [])"

section \<open>Errors and outcomes\<close>

text \<open>
  What can be thrown inside the \<open>try\<close> blocks: the \<open>AbortError\<close> with which \<open>fetch\<close>
  and the body readers reject once the controller has been aborted, a \<open>TypeError\<close> (a
  network failure, or a property read on \<open>null\<close> or \<open>undefined\<close>), the \<open>SyntaxError\<close> of
  a body that is not JSON, and the two errors the code creates itself.
\<close>

datatype thrown =
    AbortError
  | TypeError
  | SyntaxError
  | HttpError nat string
  | BodyNotReadable

text \<open>
  What the two operations throw to their caller: \<open>Request was cancelled\<close>, or the
  wrapped cause (\<open>API request failed: ...\<close>, \<open>Streaming API request failed: ...\<close>).
\<close>

datatype failure =
    RequestWasCancelled
  | ApiRequestFailed thrown
  | StreamingApiRequestFailed thrown

text \<open>
  The conversion to a string that \<open>fullContent += content\<close> applies to \<open>content\<close>. An
  object prints as \<open>[object Object]\<close> through the \<open>toString\<close> it inherits; when it has a
  member \<open>toString\<close> of its own, which as a JSON value cannot be called, the conversion
  throws a \<open>TypeError\<close>. An array prints its elements separated by commas, \<open>null\<close>
  elements as nothing, and throws when an element does.
\<close>

fun jsToString :: "json \<Rightarrow> thrown + string" where
  "jsToString JNull = Inr ''null''"
| "jsToString (JBool b) = Inr (if b then ''true'' else ''false'')"
| "jsToString (JNum x) = Inr (numberToString x)"
| "jsToString (JStr s) = Inr s"
| "jsToString (JArr xs) =
     (let parts = map (\<lambda>x. if x = JNull then Inr [] else jsToString x) xs
      in if list_ex isl parts then Inl TypeError
         else Inr (joinWith '','' (map projr parts)))"
| "jsToString (JObj kvs) =
     (if map_of kvs ''toString'' = None then Inr ''[object Object]'' else Inl TypeError)"

section \<open>The network, the clock and the storage\<close>

datatype stream_end = Done | ReadRejected thrown

text \<open>
  The reader of a response body: the decoded text of the chunks that \<open>read()\<close> delivers,
  in order (\<open>TextDecoder\<close> in streaming mode joins a character split between two
  chunks), and how the stream ends, by \<open>done\<close> or by a rejected \<open>read()\<close>. The chunks are
  finitely many: a body that never ends gives the generator no end to speak of.
\<close>

datatype reader = Reader "string list" stream_end

text \<open>
  A response: its status, what \<open>text()\<close> and \<open>json()\<close> resolve to or reject with, and
  the reader of \<open>body\<close> (\<open>None\<close>: no body).
\<close>

record response =
  status :: nat
  bodyText :: "thrown + string"
  bodyJson :: "thrown + json"
  body :: "reader option"

definition ok :: "response \<Rightarrow> bool" where
  "ok r = (200 \<le> status r \<and> status r \<le> 299)"

datatype fetch_result = Rejected thrown | Resolved response

text \<open>What \<open>fetch\<close> is called with: the URL, the bearer token and the members of the body.\<close>

record request =
  url :: string
  bearer :: string
  bodyModel :: string
  bodyMessages :: "message list"
  bodyStream :: bool
  bodyTemperature :: "jsnumber option"

text \<open>
  The surroundings of one call: the network, \<open>JSON.parse\<close>, the two readings of
  \<open>Date.now()\<close> (in \<open>getCachedResponse\<close> and, after the network, in
  \<open>setCachedResponse\<close>), and whether \<open>localStorage.setItem\<close> throws.
\<close>

record world =
  fetch :: "request \<Rightarrow> fetch_result"
  parseJSON :: "string \<Rightarrow> json option"
  nowRead :: int
  nowWrite :: int
  setItemThrows :: bool

text \<open>What a call does to the outside, in order.\<close>

datatype event = Fetch request | OnChunk json | Yield json

section \<open>The client (apiService.ts, class APIService)\<close>

record cache_entry =
  content :: json
  timestamp :: int

datatype abort_controller = AbortController

text \<open>
  The fields of the class, and the table last written to \<open>localStorage\<close> under
  \<open>cacheKey\<close> (\<open>None\<close>: no item).
\<close>

record client =
  cache :: "string \<rightharpoonup> cache_entry"
  currentController :: "abort_controller option"
  stored :: "(string \<rightharpoonup> cache_entry) option"

definition saveCache :: "world \<Rightarrow> client \<Rightarrow> client" where
  "saveCache w this = (if setItemThrows w then this else this\<lparr>stored := Some (cache this)\<rparr>)"

definition getCachedResponse ::
  "client \<Rightarrow> int \<Rightarrow> message list \<Rightarrow> jsnumber option \<Rightarrow> json option" where
  "getCachedResponse this now messages temperature =
     (let key = generateCacheKey messages temperature in
      case cache this key of
        Some entry \<Rightarrow>
          if now - timestamp entry < 24 * 60 * 60 * 1000 then Some (cache_entry.content entry)
          else None
      | None \<Rightarrow> None)"

definition setCachedResponse ::
  "world \<Rightarrow> client \<Rightarrow> message list \<Rightarrow> jsnumber option \<Rightarrow> json \<Rightarrow> client" where
  "setCachedResponse w this messages temperature c =
     (let key = generateCacheKey messages temperature in
      saveCache w
        (this\<lparr>cache := (cache this)(key \<mapsto> \<lparr>content = c, timestamp = nowWrite w\<rparr>)\<rparr>))"

section \<open>Atomic completion (chatCompletion)\<close>

text \<open>The arguments of \<open>fetch\<close>; \<open>temperature\<close> is in the body only when it is defined.\<close>

definition buildRequest ::
  "string \<Rightarrow> string \<Rightarrow> string \<Rightarrow> message list \<Rightarrow> bool \<Rightarrow> jsnumber option \<Rightarrow> request" where
  "buildRequest baseUrl apiKey model messages stream temperature =
     \<lparr>url = baseUrl @ ''/chat/completions'', bearer = apiKey, bodyModel = model,
      bodyMessages = messages, bodyStream = stream, bodyTemperature = temperature\<rparr>"

text \<open>
  \<open>data.choices[0]?.message?.content || ''\<close>. Reading \<open>choices\<close> of \<open>null\<close>, and
  reading \<open>[0]\<close> of a \<open>choices\<close> that is \<open>undefined\<close> or \<open>null\<close>, throws a \<open>TypeError\<close>.
\<close>

definition extractContent :: "json \<Rightarrow> thrown + json" where
  "extractContent data =
     (if data = JNull then Inl TypeError
      else case getMember data ''choices'' of
             None \<Rightarrow> Inl TypeError
           | Some choices \<Rightarrow>
               if choices = JNull then Inl TypeError
               else Inr (orEmpty (optMember (optMember (first choices) ''message'') ''content'')))"

text \<open>The \<open>try\<close> block: the response, the extraction, the cache write.\<close>

definition tryCompletion ::
  "world \<Rightarrow> client \<Rightarrow> request \<Rightarrow> message list \<Rightarrow> jsnumber option \<Rightarrow> thrown + json \<times> client" where
  "tryCompletion w this req messages temperature =
     (case fetch w req of
        Rejected e \<Rightarrow> Inl e
      | Resolved response \<Rightarrow>
          if \<not> ok response then
            (case bodyText response of
               Inl e \<Rightarrow> Inl e
             | Inr errorText \<Rightarrow> Inl (HttpError (status response) errorText))
          else
            (case bodyJson response of
               Inl e \<Rightarrow> Inl e
             | Inr data \<Rightarrow>
                 (case extractContent data of
                    Inl e \<Rightarrow> Inl e
                  | Inr c \<Rightarrow> Inr (c, setCachedResponse w this messages temperature c))))"

text \<open>
  From the new controller to the \<open>finally\<close>: the \<open>catch\<close> turns an \<open>AbortError\<close> into
  \<open>Request was cancelled\<close> and wraps every other error.
\<close>

definition requestCompletion ::
  "world \<Rightarrow> client \<Rightarrow> message list \<Rightarrow> string \<Rightarrow> jsnumber option \<Rightarrow> string \<Rightarrow> string
     \<Rightarrow> (failure + json) \<times> client \<times> event list" where
  "requestCompletion w this messages model temperature apiKey baseUrl =
     (let started = this\<lparr>currentController := Some AbortController\<rparr>;
          req = buildRequest baseUrl apiKey model messages False temperature
      in case tryCompletion w started req messages temperature of
           Inr (c, written) \<Rightarrow> (Inr c, written\<lparr>currentController := None\<rparr>, [Fetch req])
         | Inl e \<Rightarrow>
             (Inl (if e = AbortError then RequestWasCancelled else ApiRequestFailed e),
              started\<lparr>currentController := None\<rparr>, [Fetch req]))"

text \<open>
  The result is what the promise resolves to or rejects with, the client afterwards,
  and what the call did to the outside. \<open>if (cached)\<close> tests the cached text for
  truthiness.
\<close>

definition chatCompletion ::
  "world \<Rightarrow> client \<Rightarrow> message list \<Rightarrow> string \<Rightarrow> jsnumber option \<Rightarrow> string \<Rightarrow> string
     \<Rightarrow> (failure + json) \<times> client \<times> event list" where
  "chatCompletion w this messages model temperature apiKey baseUrl =
     (case getCachedResponse this (nowRead w) messages temperature of
        Some cached \<Rightarrow>
          if truthy cached then (Inr cached, this, [])
          else requestCompletion w this messages model temperature apiKey baseUrl
      | None \<Rightarrow> requestCompletion w this messages model temperature apiKey baseUrl)"

section \<open>Streaming completion (chatCompletionStream)\<close>

text \<open>\<open>buffer.split('\n')\<close>: never empty, the last element is the text after the last newline.\<close>

fun splitLines :: "string \<Rightarrow> string list" where
  "splitLines [] = [[]]"
| "splitLines (c # cs) =
     (if c = CHR 0x0A then [] # splitLines cs
      else case splitLines cs of [] \<Rightarrow> [[c]] | l # ls \<Rightarrow> (c # l) # ls)"

text \<open>\<open>parsed.choices?.[0]?.delta?.content\<close>; \<open>parsed\<close> may be \<open>null\<close>, whose members cannot be read.\<close>

definition deltaContent :: "json \<Rightarrow> thrown + json option" where
  "deltaContent parsed =
     (if parsed = JNull then Inl TypeError
      else Inr (optMember (optMember (optFirst (getMember parsed ''choices'')) ''delta'') ''content''))"

text \<open>
  The inner \<open>try\<close> up to \<open>if (content)\<close>: the delta of a data line, if it has one. A
  payload that does not parse, or whose reading throws, is caught and ignored.
\<close>

definition decodeData :: "(string \<Rightarrow> json option) \<Rightarrow> string \<Rightarrow> json option" where
  "decodeData parse data =
     (case parse data of
        None \<Rightarrow> None
      | Some parsed \<Rightarrow>
          (case deltaContent parsed of
             Inl e \<Rightarrow> None
           | Inr None \<Rightarrow> None
           | Inr (Some c) \<Rightarrow> if truthy c then Some c else None))"

text \<open>
  The callback is the caller's code. What the generator can see of it is whether a call
  returns or throws: \<open>returns evs c\<close> says whether the call with the chunk \<open>c\<close> returns,
  after the events \<open>evs\<close> of this call so far. The argument \<open>onChunk\<close> is \<open>None\<close> when the
  caller passes no callback.
\<close>

type_synonym callback = "event list \<Rightarrow> json \<Rightarrow> bool"

text \<open>
  The body of \<open>if (content)\<close> for one delta whose text is \<open>s\<close>: the text is appended, then
  the callback is called, then the delta is yielded. The three statements are inside
  the inner \<open>try\<close>, whose \<open>catch\<close> swallows whatever is thrown: a callback that throws
  leaves the text appended and the delta not yielded.
\<close>

definition deliver ::
  "callback option \<Rightarrow> json \<Rightarrow> string \<Rightarrow> string \<Rightarrow> event list \<Rightarrow> string \<times> event list" where
  "deliver onChunk c s fullContent evs =
     (case onChunk of
        None \<Rightarrow> (fullContent @ s, evs @ [Yield c])
      | Some returns \<Rightarrow>
          if returns evs c then (fullContent @ s, evs @ [OnChunk c, Yield c])
          else (fullContent @ s, evs @ [OnChunk c]))"

text \<open>
  The \<open>for\<close> loop over the complete lines of one read. The result says whether the
  \<open>[DONE]\<close> line was met, and gives \<open>fullContent\<close> and the events so far. A \<open>content\<close>
  whose conversion to a string throws is caught like a line that does not parse.
\<close>

fun processLines ::
  "(string \<Rightarrow> json option) \<Rightarrow> callback option \<Rightarrow> string list \<Rightarrow> string \<Rightarrow> event list
     \<Rightarrow> bool \<times> string \<times> event list" where
  "processLines parse onChunk [] fullContent evs = (False, fullContent, evs)"
| "processLines parse onChunk (line # rest) fullContent evs =
     (if take 6 line = ''data: '' then
        (let data = drop 6 line in
         if data = ''[DONE]'' then (True, fullContent, evs)
         else
           (case decodeData parse data of
              Some c \<Rightarrow>
                (case jsToString c of
                   Inl e \<Rightarrow> processLines parse onChunk rest fullContent evs
                 | Inr s \<Rightarrow>
                     (case deliver onChunk c s fullContent evs of
                        (fullContent', evs') \<Rightarrow>
                          processLines parse onChunk rest fullContent' evs'))
            | None \<Rightarrow> processLines parse onChunk rest fullContent evs))
      else processLines parse onChunk rest fullContent evs)"

datatype loop_exit = SawDone | ReaderDone | ReadThrew thrown

text \<open>
  The \<open>while (true)\<close> loop over the reads: \<open>buffer\<close> keeps the text after the last
  newline (\<open>lines.pop() || ''\<close>), the lines before it are processed.
\<close>

fun readLoop ::
  "(string \<Rightarrow> json option) \<Rightarrow> callback option \<Rightarrow> string list \<Rightarrow> stream_end \<Rightarrow> string
     \<Rightarrow> string \<Rightarrow> event list \<Rightarrow> loop_exit \<times> string \<times> event list" where
  "readLoop parse onChunk [] Done buffer fullContent evs = (ReaderDone, fullContent, evs)"
| "readLoop parse onChunk [] (ReadRejected e) buffer fullContent evs =
     (ReadThrew e, fullContent, evs)"
| "readLoop parse onChunk (v # vs) fin buffer fullContent evs =
     (let lines = splitLines (buffer @ v);
          popped = (if lines = [] then [] else last lines)
      in case processLines parse onChunk (butlast lines) fullContent evs of
           (True, fullContent', evs') \<Rightarrow> (SawDone, fullContent', evs')
         | (False, fullContent', evs') \<Rightarrow>
             readLoop parse onChunk vs fin popped fullContent' evs')"

text \<open>The outer \<open>catch\<close>.\<close>

definition streamFailure :: "thrown \<Rightarrow> failure" where
  "streamFailure e =
     (if e = AbortError then RequestWasCancelled else StreamingApiRequestFailed e)"

text \<open>
  The generator, run to its end by a consumer that takes every element: the result is
  the value it returns or the error it throws, the client afterwards, and the events in
  order. No line of it reads the cache.
\<close>

definition chatCompletionStream ::
  "world \<Rightarrow> client \<Rightarrow> message list \<Rightarrow> string \<Rightarrow> jsnumber option \<Rightarrow> string \<Rightarrow> string
     \<Rightarrow> callback option \<Rightarrow> (failure + string) \<times> client \<times> event list" where
  "chatCompletionStream w this messages model temperature apiKey baseUrl onChunk =
     (let started = this\<lparr>currentController := Some AbortController\<rparr>;
          finished = started\<lparr>currentController := None\<rparr>;
          req = buildRequest baseUrl apiKey model messages True temperature
      in case fetch w req of
           Rejected e \<Rightarrow> (Inl (streamFailure e), finished, [Fetch req])
         | Resolved response \<Rightarrow>
             if \<not> ok response then
               (case bodyText response of
                  Inl e \<Rightarrow> (Inl (streamFailure e), finished, [Fetch req])
                | Inr errorText \<Rightarrow>
                    (Inl (streamFailure (HttpError (status response) errorText)), finished,
                     [Fetch req]))
             else
               (case body response of
                  None \<Rightarrow> (Inl (streamFailure BodyNotReadable), finished, [Fetch req])
                | Some (Reader chunks fin) \<Rightarrow>
                    (case readLoop (parseJSON w) onChunk chunks fin [] [] [] of
                       (ReadThrew e, fullContent, evs) \<Rightarrow>
                         (Inl (streamFailure e), finished, Fetch req # evs)
                     | (exit, fullContent, evs) \<Rightarrow>
                         (Inr fullContent,
                          (setCachedResponse w started messages temperature (JStr fullContent))
                            \<lparr>currentController := None\<rparr>,
                          Fetch req # evs))))"

section \<open>Loading the cache (constructor, loadCache, getCacheSize)\<close>

text \<open>What \<open>localStorage.getItem(this.cacheKey)\<close> does: it throws, or returns \<open>null\<close> or a string.\<close>

datatype getItem_result = GetItemThrows | NoItem | Item string

text \<open>
  The value of the field \<open>cache\<close> after the constructor. The field starts as \<open>{}\<close>; a
  non-empty stored string that parses replaces it by whatever value it parses to, with no
  check of its shape, so the value is a \<open>json\<close> here and not yet a table of entries.
\<close>

definition loadCache :: "(string \<Rightarrow> json option) \<Rightarrow> getItem_result \<Rightarrow> json" where
  "loadCache parse got =
     (case got of
        GetItemThrows \<Rightarrow> JObj []
      | NoItem \<Rightarrow> JObj []
      | Item s \<Rightarrow>
          if s = [] then JObj []
          else (case parse s of None \<Rightarrow> JObj [] | Some v \<Rightarrow> v))"

text \<open>
  \<open>Object.keys(this.cache).length\<close> on that value: the members of an object, the indices
  of an array or of a string, nothing for a number or a boolean; \<open>null\<close> throws.
\<close>

fun getCacheSize :: "json \<Rightarrow> thrown + nat" where
  "getCacheSize JNull = Inl TypeError"
| "getCacheSize (JObj kvs) = Inr (length (remdups (map fst kvs)))"
| "getCacheSize (JArr xs) = Inr (length xs)"
| "getCacheSize (JStr s) = Inr (length s)"
| "getCacheSize (JNum x) = Inr 0"
| "getCacheSize (JBool b) = Inr 0"

section \<open>The stream protocol, as the specification words it\<close>

text \<open>
  The wire format of the specification, stated on the whole text of the stream and
  without the read loop, to compare the loop with. A data line has the prefix
  \<open>data: \<close>; the sentinel line is \<open>data: [DONE]\<close>; the complete lines of a text are those
  that a newline ends; the deltas of a stream are those of its data lines before the
  sentinel, in order.
\<close>

definition isSentinel :: "string \<Rightarrow> bool" where
  "isSentinel line = (line = ''data: [DONE]'')"

definition decodeLine :: "(string \<Rightarrow> json option) \<Rightarrow> string \<Rightarrow> json option" where
  "decodeLine parse line =
     (if take 6 line = ''data: '' then
        (case decodeData parse (drop 6 line) of
           None \<Rightarrow> None
         | Some c \<Rightarrow> (case jsToString c of Inl e \<Rightarrow> None | Inr s \<Rightarrow> Some c))
      else None)"

definition completeLines :: "string \<Rightarrow> string list" where
  "completeLines s = butlast (splitLines s)"

definition decodedDeltas :: "(string \<Rightarrow> json option) \<Rightarrow> string list \<Rightarrow> json list" where
  "decodedDeltas parse lines =
     List.map_filter (decodeLine parse) (takeWhile (\<lambda>l. \<not> isSentinel l) lines)"

text \<open>The text of a delta, and the deltas appended in order.\<close>

definition textOf :: "json \<Rightarrow> string" where
  "textOf d = (case jsToString d of Inl e \<Rightarrow> [] | Inr s \<Rightarrow> s)"

definition accumulated :: "json list \<Rightarrow> string" where
  "accumulated ds = concat (map textOf ds)"

text \<open>
  The events after \<open>evs\<close> for the deltas in order: for each one the callback, if there is
  one, then the element yielded, unless the callback threw.
\<close>

fun emitted :: "callback option \<Rightarrow> event list \<Rightarrow> json list \<Rightarrow> event list" where
  "emitted onChunk evs [] = evs"
| "emitted onChunk evs (d # ds) =
     emitted onChunk
       (evs @ (case onChunk of
                 None \<Rightarrow> [Yield d]
               | Some returns \<Rightarrow> if returns evs d then [OnChunk d, Yield d] else [OnChunk d]))
       ds"

text \<open>The elements yielded and the arguments of the callback, read off the events.\<close>

fun yielded :: "event \<Rightarrow> json option" where
  "yielded (Yield d) = Some d"
| "yielded e = None"

fun calledBack :: "event \<Rightarrow> json option" where
  "calledBack (OnChunk d) = Some d"
| "calledBack e = None"

text \<open>How the loop ends: at the sentinel if a complete line is one, else as the reader ends.\<close>

definition loopExit :: "string list \<Rightarrow> stream_end \<Rightarrow> loop_exit" where
  "loopExit lines fin =
     (if list_ex isSentinel lines then SawDone
      else case fin of Done \<Rightarrow> ReaderDone | ReadRejected e \<Rightarrow> ReadThrew e)"

section \<open>Concrete inputs\<close>

text \<open>A conversation, a client that has never completed anything, and provider bodies.\<close>

definition askMessages :: "message list" where
  "askMessages = [\<lparr>role = User, content = ''Hi'', members = RoleFirst\<rparr>]"

text \<open>The same conversation, with the members of the message written the other way round.\<close>

definition askMessagesContentFirst :: "message list" where
  "askMessagesContentFirst = [\<lparr>role = User, content = ''Hi'', members = ContentFirst\<rparr>]"

text \<open>A callback that always returns, and one that throws when it is handed \<open>'' there''\<close>.\<close>

definition alwaysReturns :: callback where
  "alwaysReturns evs c = True"

definition throwsOnThere :: callback where
  "throwsOnThere evs c = (c \<noteq> JStr '' there'')"

definition newClient :: client where
  "newClient = \<lparr>cache = Map.empty, currentController = None, stored = None\<rparr>"

text \<open>The body \<open>{"choices":[{"message":{"content":s}}]}\<close>.\<close>

definition answerBody :: "string \<Rightarrow> json" where
  "answerBody s = JObj [(''choices'', JArr [JObj [(''message'', JObj [(''content'', JStr s)])]])]"

text \<open>The stream payload \<open>{"choices":[{"delta":{"content":s}}]}\<close>.\<close>

definition deltaBody :: "string \<Rightarrow> json" where
  "deltaBody s = JObj [(''choices'', JArr [JObj [(''delta'', JObj [(''content'', JStr s)])]])]"

text \<open>
  \<open>JSON.parse\<close> on the texts that the examples below hand to it: two stream
  payloads, two stored blobs that are JSON, and \<open>not json\<close>, which is none.
\<close>

definition parseExamples :: "string \<Rightarrow> json option" where
  \<open>parseExamples s =
     (if s = ''{"choices":[{"delta":{"content":"Hi"}}]}'' then Some (deltaBody ''Hi'')
      else if s = ''{"choices":[{"delta":{"content":" there"}}]}'' then Some (deltaBody '' there'')
      else if s = ''{"a":1}'' then Some (JObj [(''a'', JNum (Decimal False 1 1))])
      else if s = ''null'' then Some JNull
      else None)\<close>

text \<open>A provider that answers every request with status 200 and the JSON body \<open>data\<close>.\<close>

definition answeringWorld :: "json \<Rightarrow> world" where
  "answeringWorld data =
     \<lparr>fetch = (\<lambda>req. Resolved \<lparr>status = 200, bodyText = Inr [], bodyJson = Inr data, body = None\<rparr>),
      parseJSON = parseExamples, nowRead = 1000, nowWrite = 2000, setItemThrows = False\<rparr>"

text \<open>A provider that answers every request with status 200 and a body stream.\<close>

definition streamingWorld :: "string list \<Rightarrow> stream_end \<Rightarrow> world" where
  "streamingWorld chunks fin =
     \<lparr>fetch = (\<lambda>req. Resolved \<lparr>status = 200, bodyText = Inr [], bodyJson = Inl SyntaxError,
                                body = Some (Reader chunks fin)\<rparr>),
      parseJSON = parseExamples, nowRead = 1000, nowWrite = 2000, setItemThrows = False\<rparr>"

text \<open>Two reads of a stream; the second data line is split between them.\<close>

definition twoReads :: "string list" where
  \<open>twoReads =
     [''data: {"choices":[{"delta":{"content":"Hi"}}]}'' @ [CHR 0x0A, CHR 0x0A] @ ''data: {"cho'',
      ''ices":[{"delta":{"content":" there"}}]}'' @ [CHR 0x0A, CHR 0x0A]]\<close>

text \<open>A client whose table holds, for \<open>askMessages\<close> without temperature, the text \<open>c\<close> written at time 0.\<close>

definition clientWith :: "json \<Rightarrow> client" where
  "clientWith c =
     \<lparr>cache = [generateCacheKey askMessages None \<mapsto> \<lparr>content = c, timestamp = 0\<rparr>],
      currentController = None, stored = None\<rparr>"

text \<open>A conversation whose key is the same without a temperature and with temperature 1.\<close>

definition collidingMessages :: "message list" where
  "collidingMessages = [\<lparr>role = User, content = ''pqhrcjd'', members = RoleFirst\<rparr>]"

text \<open>A conversation whose key is the same with temperature 0 and with temperature 2.\<close>

definition collidingMessages02 :: "message list" where
  "collidingMessages02 = [\<lparr>role = User, content = ''vmigaelr'', members = RoleFirst\<rparr>]"

text \<open>The sum of the code units of a text; the hash has its parity.\<close>

definition codeSum :: "string \<Rightarrow> int" where
  "codeSum s = sum_list (map (\<lambda>c. int (of_char c)) s)"

section \<open>Properties of the fingerprint\<close>

subsection \<open>The base-36 text determines the number\<close>

lemma digitChar_inj: "a < 36 \<Longrightarrow> b < 36 \<Longrightarrow> digitChar a = digitChar b \<Longrightarrow> a = b"
  by (auto simp add: digitChar_def split: if_splits)

lemma toRadix_unfold: "2 \<le> b \<Longrightarrow> \<not> n < b \<Longrightarrow> toRadix b n = toRadix b (n div b) @ [digitChar (n mod b)]"
  by (subst toRadix.simps) simp

lemma toRadix_small: "n < b \<Longrightarrow> toRadix b n = [digitChar n]"
  by (subst toRadix.simps) simp

lemma toRadix_not_Nil: "toRadix b n \<noteq> []"
  by (subst toRadix.simps) simp

lemma toRadix_length_one: "2 \<le> b \<Longrightarrow> length (toRadix b n) = Suc 0 \<longleftrightarrow> n < b"
proof (cases "n < b")
  case True
  then show ?thesis by (simp add: toRadix_small)
next
  case False
  assume b: "2 \<le> b"
  show ?thesis
    using False toRadix_not_Nil[of b "n div b"]
    by (cases "toRadix b (n div b)") (auto simp add: toRadix_unfold[OF b False])
qed

lemma toRadix_inj: "toRadix 36 a = toRadix 36 b \<Longrightarrow> a = b"
proof (induction a arbitrary: b rule: less_induct)
  case (less a)
  show ?case
  proof (cases "a < 36")
    case True
    then have "length (toRadix 36 b) = Suc 0"
      using less.prems toRadix_length_one[of 36 a] by simp
    then have b: "b < 36" using toRadix_length_one[of 36 b] by simp
    from True b less.prems show ?thesis
      by (simp add: toRadix_small digitChar_inj)
  next
    case False
    then have "length (toRadix 36 b) \<noteq> Suc 0"
      using less.prems toRadix_length_one[of 36 a] by simp
    then have b: "\<not> b < 36" using toRadix_length_one[of 36 b] by simp
    have ea: "toRadix 36 a = toRadix 36 (a div 36) @ [digitChar (a mod 36)]"
      using False by (simp add: toRadix_unfold)
    have eb: "toRadix 36 b = toRadix 36 (b div 36) @ [digitChar (b mod 36)]"
      using b by (simp add: toRadix_unfold)
    from less.prems ea eb have q: "toRadix 36 (a div 36) = toRadix 36 (b div 36)"
      and d: "digitChar (a mod 36) = digitChar (b mod 36)" by simp_all
    have "a div 36 < a" using False by simp
    then have "a div 36 = b div 36" using q by (rule less.IH)
    moreover have "a mod 36 = b mod 36" using d by (simp add: digitChar_inj)
    ultimately show ?thesis by (metis div_mult_mod_eq)
  qed
qed

lemma toRadix_length: "n < 36 ^ k \<Longrightarrow> 0 < k \<Longrightarrow> length (toRadix 36 n) \<le> k"
proof (induction k arbitrary: n)
  case 0
  then show ?case by simp
next
  case (Suc k)
  show ?case
  proof (cases "n < 36")
    case True
    then show ?thesis by (simp add: toRadix_small)
  next
    case False
    then have e: "toRadix 36 n = toRadix 36 (n div 36) @ [digitChar (n mod 36)]"
      by (simp add: toRadix_unfold)
    have k: "0 < k" using False Suc.prems by (cases k) auto
    have "n div 36 < 36 ^ k" using Suc.prems by (simp add: less_mult_imp_div_less mult.commute)
    then have "length (toRadix 36 (n div 36)) \<le> k" using k by (rule Suc.IH)
    then show ?thesis using e by simp
  qed
qed

subsection \<open>The hash keeps the parity of the sum of the code units\<close>

lemma toInt32_cong: "\<exists>k. toInt32 x = x + 4294967296 * k"
proof -
  have "(x + 2147483648) mod 4294967296
      = (x + 2147483648) - 4294967296 * ((x + 2147483648) div 4294967296)"
    by (simp add: minus_mult_div_eq_mod)
  then have "toInt32 x = x + 4294967296 * (- ((x + 2147483648) div 4294967296))"
    unfolding toInt32_def by simp
  then show ?thesis by blast
qed

lemma toInt32_parity: "toInt32 x mod 2 = x mod 2"
proof -
  obtain k where "toInt32 x = x + 4294967296 * k" using toInt32_cong by blast
  then show ?thesis by presburger
qed

lemma toInt32_range: "\<bar>toInt32 x\<bar> \<le> 2147483648"
  unfolding toInt32_def by (simp add: abs_le_iff) 

lemma hashStep_parity: "hashStep h c mod 2 = (h + int (of_char c)) mod 2"
proof -
  define t where "t = toInt32 (h * 32)"
  have "t mod 2 = (h * 32) mod 2" unfolding t_def by (rule toInt32_parity)
  then have t: "t mod 2 = 0" by presburger
  have "hashStep h c mod 2 = (t - h + int (of_char c)) mod 2"
    unfolding hashStep_def t_def by (rule toInt32_parity)
  also have "\<dots> = (h + int (of_char c)) mod 2" using t by presburger
  finally show ?thesis .
qed

lemma foldl_hashStep_parity: "foldl hashStep h s mod 2 = (h + codeSum s) mod 2"
proof (induction s arbitrary: h)
  case Nil
  then show ?case by (simp add: codeSum_def)
next
  case (Cons c cs)
  have "foldl hashStep h (c # cs) mod 2 = (hashStep h c + codeSum cs) mod 2"
    using Cons.IH[of "hashStep h c"] by simp
  also have "\<dots> = (hashStep h c mod 2 + codeSum cs) mod 2" by presburger
  also have "\<dots> = ((h + int (of_char c)) mod 2 + codeSum cs) mod 2"
    by (simp only: hashStep_parity)
  also have "\<dots> = (h + codeSum (c # cs)) mod 2" unfolding codeSum_def by (simp add: mod_simps algebra_simps)
  finally show ?case .
qed

lemma hashString_parity: "hashString s mod 2 = codeSum s mod 2"
  unfolding hashString_def using foldl_hashStep_parity[of 0 s] by simp

lemma foldl_hashStep_range: "\<bar>h\<bar> \<le> 2147483648 \<Longrightarrow> \<bar>foldl hashStep h s\<bar> \<le> 2147483648"
proof (induction s arbitrary: h)
  case Nil
  then show ?case by simp
next
  case (Cons c cs)
  have "\<bar>hashStep h c\<bar> \<le> 2147483648" unfolding hashStep_def by (rule toInt32_range)
  then show ?case using Cons.IH by simp
qed

lemma hashString_range: "\<bar>hashString s\<bar> \<le> 2147483648"
  unfolding hashString_def by (rule foldl_hashStep_range) simp

lemma keyText_inj:
  assumes "take 32 (toRadix 36 (nat \<bar>hashString a\<bar>)) = take 32 (toRadix 36 (nat \<bar>hashString b\<bar>))"
  shows "\<bar>hashString a\<bar> = \<bar>hashString b\<bar>"
proof -
  have bound: "\<And>s. nat \<bar>hashString s\<bar> < 36 ^ 32"
  proof -
    fix s
    have "nat \<bar>hashString s\<bar> \<le> 2147483648" using hashString_range[of s] by linarith
    also have "\<dots> < (36::nat) ^ 32" by simp
    finally show "nat \<bar>hashString s\<bar> < 36 ^ 32" .
  qed
  have "length (toRadix 36 (nat \<bar>hashString a\<bar>)) \<le> 32"
    and "length (toRadix 36 (nat \<bar>hashString b\<bar>)) \<le> 32"
    using bound by (simp_all add: toRadix_length)
  with assms have "toRadix 36 (nat \<bar>hashString a\<bar>) = toRadix 36 (nat \<bar>hashString b\<bar>)"
    by simp
  then have "nat \<bar>hashString a\<bar> = nat \<bar>hashString b\<bar>" by (rule toRadix_inj)
  then show ?thesis by simp
qed

lemma equal_keys_equal_parity:
  assumes "generateCacheKey ms t1 = generateCacheKey ms' t2"
  shows "codeSum (stringifyPayload ms t1) mod 2 = codeSum (stringifyPayload ms' t2) mod 2"
proof -
  have "\<bar>hashString (stringifyPayload ms t1)\<bar> = \<bar>hashString (stringifyPayload ms' t2)\<bar>"
    using assms unfolding generateCacheKey_def Let_def by (rule keyText_inj)
  then have "hashString (stringifyPayload ms t1) mod 2 = hashString (stringifyPayload ms' t2) mod 2"
    by presburger
  then show ?thesis by (simp only: hashString_parity)
qed

lemma codeSum_append: "codeSum (a @ b) = codeSum a + codeSum b"
  by (simp add: codeSum_def)

lemma payload_shape:
  "\<exists>P. \<forall>t. stringifyPayload ms t = P @ stringifyTemperature t @ ''}''"
proof -
  define P where \<open>P = ''{"messages":['' @ joinWith '','' (map stringifyMessage ms) @ ''],"temperature":''\<close>
  have "\<forall>t. stringifyPayload ms t = P @ stringifyTemperature t @ ''}''"
    unfolding stringifyPayload_def P_def by simp
  then show ?thesis by blast
qed

lemma absent_zero_keys_differ: "generateCacheKey ms None \<noteq> generateCacheKey ms (Some Zero)"
proof
  assume "generateCacheKey ms None = generateCacheKey ms (Some Zero)"
  then have e: "codeSum (stringifyPayload ms None) mod 2 = codeSum (stringifyPayload ms (Some Zero)) mod 2"
    by (rule equal_keys_equal_parity)
  obtain P where P: "\<And>t. stringifyPayload ms t = P @ stringifyTemperature t @ ''}''"
    using payload_shape by blast
  have "codeSum (stringifyTemperature None) = 443" "codeSum (stringifyTemperature (Some Zero)) = 48"
    by (simp_all add: codeSum_def stringifyTemperature_def)
  with e show False
    unfolding P codeSum_append by presburger
qed

lemma payload_differs:
  "stringifyTemperature t1 \<noteq> stringifyTemperature t2 \<Longrightarrow> stringifyPayload ms t1 \<noteq> stringifyPayload ms t2"
proof -
  obtain P where P: "\<And>t. stringifyPayload ms t = P @ stringifyTemperature t @ ''}''"
    using payload_shape by blast
  assume "stringifyTemperature t1 \<noteq> stringifyTemperature t2"
  then show ?thesis unfolding P by simp
qed

subsection \<open>How a finite number prints\<close>

lemma digitChar_code: "d < 10 \<Longrightarrow> of_char (digitChar d) = 48 + d"
  by (simp add: digitChar_def)

lemma toRadix10_digits: "c \<in> set (toRadix 10 n) \<Longrightarrow> (of_char c :: nat) < 58"
proof (induction n arbitrary: c rule: less_induct)
  case (less n)
  show ?case
  proof (cases "n < 10")
    case True
    then show ?thesis using less.prems by (simp add: toRadix_small digitChar_code)
  next
    case False
    then have e: "toRadix 10 n = toRadix 10 (n div 10) @ [digitChar (n mod 10)]"
      by (simp add: toRadix_unfold)
    have "n div 10 < n" using False by simp
    then show ?thesis using less.prems less.IH[of "n div 10" c] e
      by (auto simp add: digitChar_code)
  qed
qed

lemma toRadix10_zero: "toRadix 10 s = ''0'' \<Longrightarrow> s = 0"
proof -
  assume a: "toRadix 10 s = ''0''"
  then have "length (toRadix 10 s) = Suc 0" by simp
  then have s: "s < 10" using toRadix_length_one[of 10 s] by simp
  then have "digitChar s = CHR ''0''" using a by (simp add: toRadix_small)
  then have "(of_char (digitChar s) :: nat) = of_char (CHR ''0'')" by simp
  then show ?thesis using s by (simp add: digitChar_code)
qed

lemma positiveToString_chars:
  "c \<in> set (positiveToString s n) \<Longrightarrow> (of_char c :: nat) < 58 \<or> c = CHR ''e''"
  unfolding positiveToString_def Let_def
  by (auto split: if_splits dest!: in_set_takeD in_set_dropD toRadix10_digits)

lemma positiveToString_not_zero: "0 < s \<Longrightarrow> positiveToString s n \<noteq> ''0''"
proof
  assume s: "0 < s" and z: "positiveToString s n = ''0''"
  let ?ds = "toRadix 10 s"
  have ne: "?ds \<noteq> []" by (rule toRadix_not_Nil)
  have nz: "?ds \<noteq> ''0''" using s toRadix10_zero[of s] by auto
  from z show False
    unfolding positiveToString_def Let_def
    using ne nz
    by (auto split: if_splits simp add: append_eq_Cons_conv Cons_eq_append_conv)
qed

lemma finite_text_not_null: "stringifyTemperature (Some (Decimal neg s n)) \<noteq> ''null''"
proof
  assume a: "stringifyTemperature (Some (Decimal neg s n)) = ''null''"
  have "CHR ''n'' \<in> set (stringifyTemperature (Some (Decimal neg s n)))" unfolding a by simp
  then have "CHR ''n'' \<in> set (positiveToString s n)"
    by (auto simp add: stringifyTemperature_def split: if_splits)
  then show False using positiveToString_chars[of "CHR ''n''" s n] by simp
qed

lemma finite_text_not_zero: "0 < s \<Longrightarrow> stringifyTemperature (Some (Decimal neg s n)) \<noteq> ''0''"
  using positiveToString_not_zero[of s n]
  by (auto simp add: stringifyTemperature_def)


subsection \<open>Determinism and the order of the members\<close>

lemma askPayload_roleFirst:
  \<open>stringifyPayload askMessages None
     = ''{"messages":[{"role":"user","content":"Hi"}],"temperature":null}''\<close>
  by (simp add: stringifyPayload_def stringifyTemperature_def stringifyMessage_def
      quoteJSONString_def quoteChar_def askMessages_def)

lemma askPayload_contentFirst:
  \<open>stringifyPayload askMessagesContentFirst None
     = ''{"messages":[{"content":"Hi","role":"user"}],"temperature":null}''\<close>
  by (simp add: stringifyPayload_def stringifyTemperature_def stringifyMessage_def
      quoteJSONString_def quoteChar_def askMessagesContentFirst_def)

lemma askHash_roleFirst:
  \<open>hashString ''{"messages":[{"role":"user","content":"Hi"}],"temperature":null}'' = 442590688\<close>
  by (simp add: hashString_def hashStep_def toInt32_def)

lemma askHash_contentFirst:
  \<open>hashString ''{"messages":[{"content":"Hi","role":"user"}],"temperature":null}'' = - 1728560078\<close>
  by (simp add: hashString_def hashStep_def toInt32_def)

lemma askText_roleFirst: "toRadix 36 442590688 = ''7bi95s''"
  by (simp add: toRadix.simps digitChar_def char_of_eq_iff)

lemma askText_contentFirst: "toRadix 36 1728560078 = ''sl51hq''"
  by (simp add: toRadix.simps digitChar_def char_of_eq_iff)

text \<open>
  The conversations \<open>askMessages\<close> and \<open>askMessagesContentFirst\<close> have the same length, the
  same roles and the same contents, and their one message differs only in which member
  was written first. Without a temperature the first has the key \<open>7bi95s\<close> and the second
  the key \<open>sl51hq\<close>.
\<close>

theorem member_order_changes_the_key:
  "length askMessages = length askMessagesContentFirst \<and>
   map role askMessages = map role askMessagesContentFirst \<and>
   map message.content askMessages = map message.content askMessagesContentFirst \<and>
   generateCacheKey askMessages None = ''7bi95s'' \<and>
   generateCacheKey askMessagesContentFirst None = ''sl51hq''"
proof -
  have 1: "generateCacheKey askMessages None = ''7bi95s''"
    unfolding generateCacheKey_def Let_def askPayload_roleFirst askHash_roleFirst
    by (simp add: askText_roleFirst)
  have 2: "generateCacheKey askMessagesContentFirst None = ''sl51hq''"
    unfolding generateCacheKey_def Let_def askPayload_contentFirst askHash_contentFirst
    by (simp add: askText_contentFirst)
  show ?thesis
    using 1 2 by (simp add: askMessages_def askMessagesContentFirst_def)
qed

text \<open>
  C3, as the code has it. The key is the hash of the text that \<open>JSON.stringify\<close> prints.
  Two conversations of the same length whose messages have, position by position, the
  same role, the same content and their members in the same order print alike, and so
  do two temperatures that print alike, as two equal temperatures do: such pairs get the
  same key on every call.
\<close>

theorem generateCacheKey_deterministic:
  assumes "length ms1 = length ms2"
    and "\<And>i. i < length ms1 \<Longrightarrow>
           role (ms1 ! i) = role (ms2 ! i) \<and>
           message.content (ms1 ! i) = message.content (ms2 ! i) \<and>
           members (ms1 ! i) = members (ms2 ! i)"
    and "t1 = t2 \<or> stringifyTemperature t1 = stringifyTemperature t2"
  shows "generateCacheKey ms1 t1 = generateCacheKey ms2 t2"
proof -
  have "map stringifyMessage ms1 = map stringifyMessage ms2"
  proof (rule nth_equalityI)
    show "length (map stringifyMessage ms1) = length (map stringifyMessage ms2)"
      using assms(1) by simp
  next
    fix i assume "i < length (map stringifyMessage ms1)"
    then have i: "i < length ms1" by simp
    then have "stringifyMessage (ms1 ! i) = stringifyMessage (ms2 ! i)"
      using assms(2)[of i] by (simp add: stringifyMessage_def split: member_order.splits)
    then show "map stringifyMessage ms1 ! i = map stringifyMessage ms2 ! i"
      using i assms(1) by simp
  qed
  moreover have "stringifyTemperature t1 = stringifyTemperature t2"
    using assms(3) by auto
  ultimately have "stringifyPayload ms1 t1 = stringifyPayload ms2 t2"
    by (simp add: stringifyPayload_def)
  then show ?thesis by (simp add: generateCacheKey_def)
qed

theorem generateCacheKey_deterministic_witness:
  "generateCacheKey [\<lparr>role = User, content = ''Hi'', members = RoleFirst\<rparr>] (Some Zero)
     = generateCacheKey (map (\<lambda>c. \<lparr>role = User, content = c, members = RoleFirst\<rparr>) [''Hi''])
         (Some Zero) \<and>
   generateCacheKey [\<lparr>role = User, content = ''Hi'', members = ContentFirst\<rparr>] None
     = generateCacheKey [\<lparr>role = User, content = ''Hi'', members = ContentFirst\<rparr>] (Some NaN)"
proof
  show "generateCacheKey [\<lparr>role = User, content = ''Hi'', members = RoleFirst\<rparr>] (Some Zero)
     = generateCacheKey (map (\<lambda>c. \<lparr>role = User, content = c, members = RoleFirst\<rparr>) [''Hi''])
         (Some Zero)"
    by (rule generateCacheKey_deterministic) simp_all
  show "generateCacheKey [\<lparr>role = User, content = ''Hi'', members = ContentFirst\<rparr>] None
     = generateCacheKey [\<lparr>role = User, content = ''Hi'', members = ContentFirst\<rparr>] (Some NaN)"
    by (rule generateCacheKey_deterministic) (simp_all add: stringifyTemperature_def)
qed

subsection \<open>Temperature absent, zero and other\<close>

text \<open>A temperature that is not a number, or not finite, is hashed as an absent one is.\<close>

lemma nan_key_is_absent_key:
  "generateCacheKey ms (Some NaN) = generateCacheKey ms None \<and>
   generateCacheKey ms (Some PosInfinity) = generateCacheKey ms None \<and>
   generateCacheKey ms (Some NegInfinity) = generateCacheKey ms None"
  by (simp add: generateCacheKey_def stringifyPayload_def stringifyTemperature_def)

lemma collidingPayload_absent:
  \<open>stringifyPayload collidingMessages None
     = ''{"messages":[{"role":"user","content":"pqhrcjd"}],"temperature":null}''\<close>
  by (simp add: stringifyPayload_def stringifyTemperature_def stringifyMessage_def
      quoteJSONString_def quoteChar_def collidingMessages_def)

lemma one_digits: "toRadix 10 1 = ''1''"
  by (simp add: toRadix_small digitChar_def char_of_eq_iff)

lemma one_positive: "positiveToString 1 1 = ''1''"
  unfolding positiveToString_def one_digits by simp

lemma one_text: "stringifyNumber (Decimal False 1 1) = ''1''"
  using one_positive by simp

lemma collidingPayload_one:
  \<open>stringifyPayload collidingMessages (Some (Decimal False 1 1))
     = ''{"messages":[{"role":"user","content":"pqhrcjd"}],"temperature":1}''\<close>
  unfolding stringifyPayload_def stringifyTemperature_def option.case one_text
  by (simp add: stringifyMessage_def quoteJSONString_def quoteChar_def collidingMessages_def)

lemma collidingHash_absent:
  \<open>hashString ''{"messages":[{"role":"user","content":"pqhrcjd"}],"temperature":null}'' = 497977873\<close>
  by (simp add: hashString_def hashStep_def toInt32_def)

lemma collidingHash_one:
  \<open>hashString ''{"messages":[{"role":"user","content":"pqhrcjd"}],"temperature":1}'' = 497977873\<close>
  by (simp add: hashString_def hashStep_def toInt32_def)

lemma collidingText: "toRadix 36 497977873 = ''88he6p''"
  by (simp add: toRadix.simps digitChar_def char_of_eq_iff)

text \<open>
  The conversation \<open>collidingMessages\<close> has the key \<open>88he6p\<close> both without a
  temperature and with temperature 1: the two payloads differ, their hashes do not.
\<close>

theorem absent_and_one_share_a_key:
  "generateCacheKey collidingMessages None = ''88he6p'' \<and>
   generateCacheKey collidingMessages (Some (Decimal False 1 1)) = ''88he6p''"
  unfolding generateCacheKey_def Let_def collidingPayload_absent collidingPayload_one
    collidingHash_absent collidingHash_one
  by (simp add: collidingText)

text \<open>
  The conversation \<open>collidingMessages02\<close> has the key \<open>v\<close> both with temperature 0 and
  with temperature 2: the two hashes are \<open>-31\<close> and \<open>31\<close>, and the key is made from the
  absolute value.
\<close>

lemma two_digits: "toRadix 10 2 = ''2''"
  by (simp add: toRadix_small digitChar_def char_of_eq_iff)

lemma two_positive: "positiveToString 2 1 = ''2''"
  unfolding positiveToString_def two_digits by simp

lemma two_text: "stringifyNumber (Decimal False 2 1) = ''2''"
  using two_positive by simp

lemma collidingPayload_zero:
  \<open>stringifyPayload collidingMessages02 (Some Zero)
     = ''{"messages":[{"role":"user","content":"vmigaelr"}],"temperature":0}''\<close>
  by (simp add: stringifyPayload_def stringifyTemperature_def stringifyMessage_def
      quoteJSONString_def quoteChar_def collidingMessages02_def)

lemma collidingPayload_two:
  \<open>stringifyPayload collidingMessages02 (Some (Decimal False 2 1))
     = ''{"messages":[{"role":"user","content":"vmigaelr"}],"temperature":2}''\<close>
  unfolding stringifyPayload_def stringifyTemperature_def option.case two_text
  by (simp add: stringifyMessage_def quoteJSONString_def quoteChar_def collidingMessages02_def)

lemma collidingHash_zero:
  \<open>hashString ''{"messages":[{"role":"user","content":"vmigaelr"}],"temperature":0}'' = - 31\<close>
  by (simp add: hashString_def hashStep_def toInt32_def)

lemma collidingHash_two:
  \<open>hashString ''{"messages":[{"role":"user","content":"vmigaelr"}],"temperature":2}'' = 31\<close>
  by (simp add: hashString_def hashStep_def toInt32_def)

lemma zero_and_two_share_a_key:
  "generateCacheKey collidingMessages02 (Some Zero) = ''v'' \<and>
   generateCacheKey collidingMessages02 (Some (Decimal False 2 1)) = ''v''"
  unfolding generateCacheKey_def Let_def collidingPayload_zero collidingPayload_two
    collidingHash_zero collidingHash_two
  by (simp add: toRadix_small digitChar_def char_of_eq_iff)

text \<open>
  C4, as the code has it. For every conversation the key without a temperature differs
  from the key with temperature 0. For a finite non-zero temperature the text that is
  hashed differs from the text hashed without a temperature and from the one hashed
  with temperature 0; the key is the base-36 text of the absolute value of a 32-bit
  hash of that text, and two different texts can have one key.
\<close>

theorem temperature_cases_of_the_key:
  "generateCacheKey ms None \<noteq> generateCacheKey ms (Some Zero) \<and>
   (0 < s \<longrightarrow>
      stringifyPayload ms (Some (Decimal neg s n)) \<noteq> stringifyPayload ms None \<and>
      stringifyPayload ms (Some (Decimal neg s n)) \<noteq> stringifyPayload ms (Some Zero))"
proof (intro conjI impI)
  show "generateCacheKey ms None \<noteq> generateCacheKey ms (Some Zero)"
    by (rule absent_zero_keys_differ)
next
  show "stringifyPayload ms (Some (Decimal neg s n)) \<noteq> stringifyPayload ms None"
    using finite_text_not_null[of neg s n]
    by (intro payload_differs) (simp add: stringifyTemperature_def)
next
  assume "0 < s"
  then show "stringifyPayload ms (Some (Decimal neg s n)) \<noteq> stringifyPayload ms (Some Zero)"
    using finite_text_not_zero[of s neg n]
    by (intro payload_differs) (simp add: stringifyTemperature_def)
qed

theorem temperature_cases_of_the_key_witness:
  "(0::nat) < 7 \<and>
   generateCacheKey askMessages None \<noteq> generateCacheKey askMessages (Some Zero) \<and>
   stringifyPayload askMessages (Some (Decimal False 7 0)) \<noteq> stringifyPayload askMessages None \<and>
   stringifyPayload askMessages (Some (Decimal False 7 0)) \<noteq> stringifyPayload askMessages (Some Zero)"
  using temperature_cases_of_the_key [of askMessages 7 False 0] by simp


section \<open>Properties of the atomic completion\<close>

lemma requestCompletion_events:
  "snd (snd (requestCompletion w this ms model t apiKey baseUrl))
     = [Fetch (buildRequest baseUrl apiKey model ms False t)]"
  by (simp add: requestCompletion_def Let_def split: sum.splits prod.splits)


lemma requestCompletion_failure:
  assumes "requestCompletion w this ms model t apiKey baseUrl = (Inl e, this', evs)"
  shows "this' = this\<lparr>currentController := None\<rparr>"
  using assms
  by (auto simp add: requestCompletion_def Let_def split: sum.splits prod.splits)


text \<open>Without an entry, or with one that is 24 hours old or older, the request is made.\<close>

lemma chatCompletion_miss:
  assumes "cache this (generateCacheKey ms t) = None \<or>
           (\<exists>entry. cache this (generateCacheKey ms t) = Some entry \<and>
                     24 * 60 * 60 * 1000 \<le> nowRead w - timestamp entry)"
  shows "chatCompletion w this ms model t apiKey baseUrl
           = requestCompletion w this ms model t apiKey baseUrl"
  using assms by (auto simp add: chatCompletion_def getCachedResponse_def)

text \<open>A fresh entry whose text is falsy, the empty string among them, is not used.\<close>

lemma chatCompletion_falsy_entry:
  assumes "cache this (generateCacheKey ms t) = Some entry"
    and "\<not> truthy (cache_entry.content entry)"
  shows "chatCompletion w this ms model t apiKey baseUrl
           = requestCompletion w this ms model t apiKey baseUrl"
  using assms by (simp add: chatCompletion_def getCachedResponse_def)

text \<open>
  C1, at a fresh entry whose text is empty. The table of \<open>clientWith (JStr [])\<close> holds the
  empty text for \<open>askMessages\<close>, written one second before the call, and
  \<open>getCachedResponse\<close> returns it; \<open>chatCompletion\<close> nevertheless sends the request,
  returns the provider's answer and overwrites the entry.
\<close>

theorem chatCompletion_refetches_empty_entry:
  "getCachedResponse (clientWith (JStr [])) (nowRead (answeringWorld (answerBody ''fresh'')))
     askMessages None = Some (JStr [])
   \<and> chatCompletion (answeringWorld (answerBody ''fresh'')) (clientWith (JStr []))
       askMessages ''gpt-4'' None ''sk'' ''https://api.openai.com/v1''
     = (Inr (JStr ''fresh''),
        \<lparr>cache = [generateCacheKey askMessages None \<mapsto> \<lparr>content = JStr ''fresh'', timestamp = 2000\<rparr>],
         currentController = None,
         stored = Some [generateCacheKey askMessages None \<mapsto> \<lparr>content = JStr ''fresh'', timestamp = 2000\<rparr>]\<rparr>,
        [Fetch (buildRequest ''https://api.openai.com/v1'' ''sk'' ''gpt-4'' askMessages False None)])"
  by (simp add: chatCompletion_def getCachedResponse_def requestCompletion_def tryCompletion_def
      setCachedResponse_def saveCache_def clientWith_def answeringWorld_def answerBody_def
      extractContent_def ok_def Let_def)

subsection \<open>Extraction of the content\<close>

lemma extractContent_first_choice:
  "truthy c \<Longrightarrow> extractContent (JObj [(''choices'', JArr (JObj [(''message'', JObj [(''content'', c)])] # others))]) = Inr c"
  by (cases c) (simp_all add: extractContent_def)

lemma extractContent_no_choice: "extractContent (JObj [(''choices'', JArr [])]) = Inr (JStr [])"
  by (simp add: extractContent_def)

lemma extractContent_array:
  "map_of kvs ''choices'' = Some (JArr xs) \<Longrightarrow>
   extractContent (JObj kvs)
     = Inr (orEmpty (optMember (optMember (first (JArr xs)) ''message'') ''content''))"
  by (simp add: extractContent_def)

lemma extractContent_without_choices:
  "map_of kvs ''choices'' = None \<Longrightarrow> extractContent (JObj kvs) = Inl TypeError"
  by (simp add: extractContent_def)

text \<open>
  C2, at a body without \<open>choices\<close>. The provider answers 200 with the body \<open>{}\<close>:
  \<open>chatCompletion\<close> does not return the empty string, it fails with the wrapped
  \<open>TypeError\<close> of reading \<open>[0]\<close> of \<open>undefined\<close>, and writes nothing.
\<close>

theorem chatCompletion_body_without_choices:
  "chatCompletion (answeringWorld (JObj [])) newClient
       askMessages ''gpt-4'' None ''sk'' ''https://api.openai.com/v1''
     = (Inl (ApiRequestFailed TypeError), newClient,
        [Fetch (buildRequest ''https://api.openai.com/v1'' ''sk'' ''gpt-4'' askMessages False None)])"
  by (simp add: chatCompletion_def getCachedResponse_def requestCompletion_def tryCompletion_def
      newClient_def answeringWorld_def extractContent_def ok_def Let_def)

lemma chatCompletion_zero_choices:
  "chatCompletion (answeringWorld (JObj [(''choices'', JArr [])])) newClient
       askMessages ''gpt-4'' None ''sk'' ''https://api.openai.com/v1''
     = (Inr (JStr []),
        \<lparr>cache = [generateCacheKey askMessages None \<mapsto> \<lparr>content = JStr [], timestamp = 2000\<rparr>],
         currentController = None,
         stored = Some [generateCacheKey askMessages None \<mapsto> \<lparr>content = JStr [], timestamp = 2000\<rparr>]\<rparr>,
        [Fetch (buildRequest ''https://api.openai.com/v1'' ''sk'' ''gpt-4'' askMessages False None)])"
  by (simp add: chatCompletion_def getCachedResponse_def requestCompletion_def tryCompletion_def
      setCachedResponse_def saveCache_def newClient_def answeringWorld_def extractContent_def
      ok_def Let_def)

section \<open>Properties of the streaming completion\<close>

subsection \<open>The read loop decodes the complete lines of the whole text\<close>

lemma splitLines_nonempty [simp]: "splitLines s \<noteq> []"
  by (induction s) (auto split: list.splits)

lemma isSentinel_iff:
  "isSentinel line \<longleftrightarrow> (take 6 line = ''data: '' \<and> drop 6 line = ''[DONE]'')"
proof
  assume "isSentinel line"
  then show "take 6 line = ''data: '' \<and> drop 6 line = ''[DONE]''"
    by (simp add: isSentinel_def)
next
  assume a: "take 6 line = ''data: '' \<and> drop 6 line = ''[DONE]''"
  have "line = take 6 line @ drop 6 line" by simp
  also have "\<dots> = ''data: '' @ ''[DONE]''" using a by simp
  finally show "isSentinel line" by (simp add: isSentinel_def)
qed

lemma processLines_eq:
  "processLines parse cb ls full evs =
     (list_ex isSentinel ls,
      full @ accumulated (decodedDeltas parse ls),
      emitted cb evs (decodedDeltas parse ls))"
proof (induction ls arbitrary: full evs)
  case Nil
  then show ?case by (simp add: decodedDeltas_def accumulated_def List.map_filter_simps)
next
  case (Cons line rest)
  show ?case
  proof (cases "isSentinel line")
    case True
    then show ?thesis
      using isSentinel_iff[of line]
      by (simp add: decodedDeltas_def accumulated_def List.map_filter_simps)
  next
    case False
    then have ns: "\<not> (take 6 line = ''data: '' \<and> drop 6 line = ''[DONE]'')"
      using isSentinel_iff[of line] by simp
    show ?thesis
    proof (cases "decodeLine parse line")
      case None
      then show ?thesis using False ns Cons.IH
        by (auto simp add: decodedDeltas_def List.map_filter_simps decodeLine_def
            Let_def split: if_splits option.splits sum.splits)
    next
      case (Some c)
      then show ?thesis using False ns Cons.IH
        by (auto simp add: decodedDeltas_def accumulated_def textOf_def deliver_def
            List.map_filter_simps decodeLine_def Let_def
            split: if_splits option.splits sum.splits)
    qed
  qed
qed

lemma splitLines_append:
  "splitLines (a @ b) = butlast (splitLines a) @ splitLines (last (splitLines a) @ b)"
proof (induction a)
  case Nil
  then show ?case by simp
next
  case (Cons c cs)
  show ?case
  proof (cases "c = CHR 0x0A")
    case True
    then show ?thesis using Cons.IH by simp
  next
    case False
    obtain l ls where s: "splitLines cs = l # ls"
      by (cases "splitLines cs") auto
    show ?thesis
    proof (cases ls)
      case Nil
      then show ?thesis using False s Cons.IH
        by (auto split: list.splits)
    next
      case (Cons l2 ls2)
      then show ?thesis using False s Cons.IH
        by (auto split: list.splits)
    qed
  qed
qed

lemma splitLines_no_newline: "CHR 0x0A \<notin> set b \<Longrightarrow> splitLines b = [b]"
  by (induction b) auto

lemma last_splitLines_no_newline: "CHR 0x0A \<notin> set (last (splitLines s))"
proof (induction s)
  case Nil
  then show ?case by simp
next
  case (Cons c cs)
  then show ?case
    by (cases "splitLines cs") (auto split: list.splits)
qed

lemma completeLines_append:
  "completeLines (a @ b) = completeLines a @ completeLines (last (splitLines a) @ b)"
  unfolding completeLines_def
  by (subst splitLines_append) (simp add: butlast_append)

lemma decodedDeltas_append:
  "decodedDeltas parse (xs @ ys) =
     (if list_ex isSentinel xs then decodedDeltas parse xs
      else decodedDeltas parse xs @ decodedDeltas parse ys)"
proof (cases "list_ex isSentinel xs")
  case True
  then obtain l where "l \<in> set xs" "\<not> \<not> isSentinel l" by (auto simp add: list_ex_iff)
  then have "takeWhile (\<lambda>l. \<not> isSentinel l) (xs @ ys) = takeWhile (\<lambda>l. \<not> isSentinel l) xs"
    by (rule takeWhile_append1)
  with True show ?thesis by (simp add: decodedDeltas_def)
next
  case False
  then have all: "\<And>x. x \<in> set xs \<Longrightarrow> \<not> isSentinel x" by (auto simp add: list_ex_iff)
  have t1: "takeWhile (\<lambda>l. \<not> isSentinel l) (xs @ ys) = xs @ takeWhile (\<lambda>l. \<not> isSentinel l) ys"
    using all by (rule takeWhile_append2)
  have t2: "takeWhile (\<lambda>l. \<not> isSentinel l) xs = xs"
    using all by (simp add: takeWhile_eq_all_conv)
  show ?thesis
    unfolding decodedDeltas_def t1 t2 using False by (simp add: List.map_filter_def)
qed

lemma emitted_append: "emitted cb evs (xs @ ys) = emitted cb (emitted cb evs xs) ys"
  by (induction xs arbitrary: evs) simp_all

lemma accumulated_append: "accumulated (xs @ ys) = accumulated xs @ accumulated ys"
  by (simp add: accumulated_def)

lemma readLoop_eq:
  "CHR 0x0A \<notin> set buffer \<Longrightarrow>
   readLoop parse cb chunks fin buffer full evs =
     (loopExit (completeLines (buffer @ concat chunks)) fin,
      full @ accumulated (decodedDeltas parse (completeLines (buffer @ concat chunks))),
      emitted cb evs (decodedDeltas parse (completeLines (buffer @ concat chunks))))"
proof (induction chunks arbitrary: buffer full evs)
  case Nil
  then show ?case
    by (cases fin)
       (simp_all add: completeLines_def splitLines_no_newline loopExit_def decodedDeltas_def
          accumulated_def List.map_filter_simps)
next
  case (Cons v vs)
  let ?lines = "splitLines (buffer @ v)"
  have nn: "CHR 0x0A \<notin> set (last ?lines)" by (rule last_splitLines_no_newline)
  have split: "completeLines (buffer @ concat (v # vs))
      = completeLines (buffer @ v) @ completeLines (last ?lines @ concat vs)"
    using completeLines_append[of "buffer @ v" "concat vs"] by simp
  show ?case
  proof (cases "list_ex isSentinel (completeLines (buffer @ v))")
    case True
    then show ?thesis
      unfolding split
      by (auto simp add: processLines_eq completeLines_def[symmetric] loopExit_def
          decodedDeltas_append Let_def)
  next
    case False
    then show ?thesis
      unfolding split
      using Cons.IH[OF nn]
      by (auto simp add: processLines_eq completeLines_def[symmetric] loopExit_def
          decodedDeltas_append emitted_append accumulated_append Let_def)
  qed
qed

lemma readLoop_start:
  "readLoop parse cb chunks fin [] [] [] =
     (loopExit (completeLines (concat chunks)) fin,
      accumulated (decodedDeltas parse (completeLines (concat chunks))),
      emitted cb [] (decodedDeltas parse (completeLines (concat chunks))))"
  using readLoop_eq[of "[]" parse cb chunks fin "[]" "[]"] by simp

subsection \<open>The whole call\<close>

lemma chatCompletionStream_resolved:
  assumes "fetch w (buildRequest baseUrl apiKey model ms True t) = Resolved r"
    and "ok r"
    and "body r = Some (Reader chunks fin)"
  shows "chatCompletionStream w this ms model t apiKey baseUrl cb =
     (case loopExit (completeLines (concat chunks)) fin of
        ReadThrew e \<Rightarrow>
          (Inl (streamFailure e), this\<lparr>currentController := None\<rparr>,
           Fetch (buildRequest baseUrl apiKey model ms True t)
             # emitted cb [] (decodedDeltas (parseJSON w) (completeLines (concat chunks))))
      | exit \<Rightarrow>
          (Inr (accumulated (decodedDeltas (parseJSON w) (completeLines (concat chunks)))),
           (setCachedResponse w (this\<lparr>currentController := Some AbortController\<rparr>) ms t
              (JStr (accumulated (decodedDeltas (parseJSON w) (completeLines (concat chunks))))))
             \<lparr>currentController := None\<rparr>,
           Fetch (buildRequest baseUrl apiKey model ms True t)
             # emitted cb [] (decodedDeltas (parseJSON w) (completeLines (concat chunks)))))"
  using assms
  by (simp add: chatCompletionStream_def Let_def readLoop_start split: loop_exit.splits)

lemma chatCompletionStream_first_event:
  "take 1 (snd (snd (chatCompletionStream w this ms model t apiKey baseUrl cb)))
     = [Fetch (buildRequest baseUrl apiKey model ms True t)]"
  by (simp add: chatCompletionStream_def Let_def
      split: fetch_result.splits sum.splits option.splits reader.splits prod.splits loop_exit.splits)

lemma chatCompletionStream_cache:
  "cache (fst (snd (chatCompletionStream w this ms model t apiKey baseUrl cb)))
     = (case fst (chatCompletionStream w this ms model t apiKey baseUrl cb) of
          Inl e \<Rightarrow> cache this
        | Inr full \<Rightarrow>
            (cache this)(generateCacheKey ms t \<mapsto> \<lparr>content = JStr full, timestamp = nowWrite w\<rparr>))"
  by (simp add: chatCompletionStream_def Let_def setCachedResponse_def saveCache_def
      split: fetch_result.splits sum.splits option.splits reader.splits prod.splits loop_exit.splits)

lemma chatCompletionStream_stored:
  "stored (fst (snd (chatCompletionStream w this ms model t apiKey baseUrl cb)))
     = (case fst (chatCompletionStream w this ms model t apiKey baseUrl cb) of
          Inl e \<Rightarrow> stored this
        | Inr full \<Rightarrow>
            if setItemThrows w then stored this
            else Some ((cache this)(generateCacheKey ms t \<mapsto> \<lparr>content = JStr full, timestamp = nowWrite w\<rparr>)))"
  by (simp add: chatCompletionStream_def Let_def setCachedResponse_def saveCache_def
      split: fetch_result.splits sum.splits option.splits reader.splits prod.splits loop_exit.splits)

lemma chatCompletionStream_ignores_client:
  "fst (chatCompletionStream w this ms model t apiKey baseUrl cb)
     = fst (chatCompletionStream w other ms model t apiKey baseUrl cb) \<and>
   snd (snd (chatCompletionStream w this ms model t apiKey baseUrl cb))
     = snd (snd (chatCompletionStream w other ms model t apiKey baseUrl cb))"
  by (simp add: chatCompletionStream_def Let_def
      split: fetch_result.splits sum.splits option.splits reader.splits prod.splits loop_exit.splits)

text \<open>
  C6. The generator asks the network first, whatever the table holds: its first event is
  the request, and neither its result nor its events depend on the client it is called
  on. The table afterwards is the table before when the call fails, and the table
  before with the accumulated text of the whole stream under the fingerprint when it
  succeeds.
\<close>

theorem chatCompletionStream_never_reads_the_cache:
  "take 1 (snd (snd (chatCompletionStream w this ms model t apiKey baseUrl cb)))
     = [Fetch (buildRequest baseUrl apiKey model ms True t)] \<and>
   fst (chatCompletionStream w this ms model t apiKey baseUrl cb)
     = fst (chatCompletionStream w other ms model t apiKey baseUrl cb) \<and>
   snd (snd (chatCompletionStream w this ms model t apiKey baseUrl cb))
     = snd (snd (chatCompletionStream w other ms model t apiKey baseUrl cb)) \<and>
   cache (fst (snd (chatCompletionStream w this ms model t apiKey baseUrl cb)))
     = (case fst (chatCompletionStream w this ms model t apiKey baseUrl cb) of
          Inl e \<Rightarrow> cache this
        | Inr full \<Rightarrow>
            (cache this)(generateCacheKey ms t \<mapsto> \<lparr>content = JStr full, timestamp = nowWrite w\<rparr>))"
  using chatCompletionStream_first_event[of w this ms model t apiKey baseUrl cb]
    chatCompletionStream_ignores_client[of w this ms model t apiKey baseUrl cb other]
    chatCompletionStream_cache[of w this ms model t apiKey baseUrl cb]
  by simp

lemma twoReads_lines:
  \<open>completeLines (concat twoReads)
     = [''data: {"choices":[{"delta":{"content":"Hi"}}]}'', [],
        ''data: {"choices":[{"delta":{"content":" there"}}]}'', []]\<close>
  by (simp add: completeLines_def twoReads_def)

lemma twoReads_no_sentinel: "\<not> list_ex isSentinel (completeLines (concat twoReads))"
  unfolding twoReads_lines by (simp add: isSentinel_def)

lemma twoReads_deltas:
  "decodedDeltas parseExamples (completeLines (concat twoReads)) = [JStr ''Hi'', JStr '' there'']"
  unfolding twoReads_lines
  by (simp add: decodedDeltas_def isSentinel_def List.map_filter_simps decodeLine_def
      decodeData_def parseExamples_def deltaBody_def deltaContent_def)

text \<open>
  With a fresh, non-empty entry for the conversation the atomic call answers from the
  table and the generator still sends the request.
\<close>

lemma stream_fetches_on_a_fresh_entry:
  "chatCompletion (streamingWorld twoReads Done) (clientWith (JStr ''old''))
       askMessages ''gpt-4'' None ''sk'' ''https://api.openai.com/v1''
     = (Inr (JStr ''old''), clientWith (JStr ''old''), []) \<and>
   snd (snd (chatCompletionStream (streamingWorld twoReads Done) (clientWith (JStr ''old''))
       askMessages ''gpt-4'' None ''sk'' ''https://api.openai.com/v1'' (Some alwaysReturns)))
     = [Fetch (buildRequest ''https://api.openai.com/v1'' ''sk'' ''gpt-4'' askMessages True None),
        OnChunk (JStr ''Hi''), Yield (JStr ''Hi''),
        OnChunk (JStr '' there''), Yield (JStr '' there'')]"
proof -
  have r: "fetch (streamingWorld twoReads Done)
             (buildRequest ''https://api.openai.com/v1'' ''sk'' ''gpt-4'' askMessages True None)
           = Resolved \<lparr>status = 200, bodyText = Inr [], bodyJson = Inl SyntaxError,
                       body = Some (Reader twoReads Done)\<rparr>"
    by (simp add: streamingWorld_def)
  have p: "parseJSON (streamingWorld twoReads Done) = parseExamples"
    by (simp add: streamingWorld_def)
  have hit: "chatCompletion (streamingWorld twoReads Done) (clientWith (JStr ''old''))
       askMessages ''gpt-4'' None ''sk'' ''https://api.openai.com/v1''
     = (Inr (JStr ''old''), clientWith (JStr ''old''), [])"
    by (simp add: chatCompletion_def getCachedResponse_def clientWith_def streamingWorld_def)
  show ?thesis
    using hit
    by (simp add: chatCompletionStream_resolved[OF r] ok_def p twoReads_deltas loopExit_def
        twoReads_no_sentinel alwaysReturns_def)
qed



subsection \<open>What becomes of each delta\<close>

text \<open>
  A \<open>content\<close> that is an object with a member \<open>toString\<close> of its own cannot be appended:
  the line yields nothing, as a line that does not parse.
\<close>

lemma unprintable_content_is_skipped:
  "parse data
     = Some (JObj [(''choices'',
               JArr [JObj [(''delta'', JObj [(''content'', JObj [(''toString'', JNull)])])]])]) \<Longrightarrow>
   data \<noteq> ''[DONE]'' \<Longrightarrow>
   processLines parse cb [''data: '' @ data] full evs = (False, full, evs)"
  by (simp add: decodeData_def deltaContent_def Let_def)

lemma emitted_without_callback: "emitted None evs ds = evs @ map Yield ds"
  by (induction ds arbitrary: evs) simp_all

lemma emitted_returning:
  "(\<And>e d. returns e d) \<Longrightarrow>
   emitted (Some returns) evs ds = evs @ concat (map (\<lambda>d. [OnChunk d, Yield d]) ds)"
  by (induction ds arbitrary: evs) simp_all

text \<open>
  Without a callback, and with a callback that returns from every call, each delta of
  the data lines is appended, handed to the callback if there is one, and yielded, in
  the order of the stream, however the stream is cut into chunks.
\<close>

lemma every_delta_is_delivered_when_the_callback_returns:
  assumes "cb = None \<or> (\<exists>returns. cb = Some returns \<and> (\<forall>e d. returns e d))"
  shows "readLoop parse cb chunks fin [] [] []
     = (loopExit (completeLines (concat chunks)) fin,
        accumulated (decodedDeltas parse (completeLines (concat chunks))),
        emitted cb [] (decodedDeltas parse (completeLines (concat chunks))))"
    and "List.map_filter yielded (emitted cb [] ds) = ds"
    and "List.map_filter calledBack (emitted cb [] ds) = (if cb = None then [] else ds)"
proof -
  show "readLoop parse cb chunks fin [] [] []
     = (loopExit (completeLines (concat chunks)) fin,
        accumulated (decodedDeltas parse (completeLines (concat chunks))),
        emitted cb [] (decodedDeltas parse (completeLines (concat chunks))))"
    by (rule readLoop_start)
  from assms show "List.map_filter yielded (emitted cb [] ds) = ds"
  proof
    assume "cb = None"
    then show ?thesis
      by (induction ds) (simp_all add: emitted_without_callback List.map_filter_simps)
  next
    assume "\<exists>returns. cb = Some returns \<and> (\<forall>e d. returns e d)"
    then obtain returns where r: "cb = Some returns" "\<And>e d. returns e d" by auto
    show ?thesis
      unfolding r(1) emitted_returning[of returns, OF r(2)]
      by (induction ds) (simp_all add: List.map_filter_simps)
  qed
  from assms show "List.map_filter calledBack (emitted cb [] ds) = (if cb = None then [] else ds)"
  proof
    assume "cb = None"
    then show ?thesis
      by (induction ds) (simp_all add: emitted_without_callback List.map_filter_simps)
  next
    assume "\<exists>returns. cb = Some returns \<and> (\<forall>e d. returns e d)"
    then obtain returns where r: "cb = Some returns" "\<And>e d. returns e d" by auto
    show ?thesis
      unfolding r(1) emitted_returning[of returns, OF r(2)]
      by (induction ds) (simp_all add: List.map_filter_simps)
  qed
qed

lemma twoReads_streamed_with:
  "chatCompletionStream (streamingWorld twoReads Done) newClient
       askMessages ''gpt-4'' None ''sk'' ''https://api.openai.com/v1'' cb
     = (Inr ''Hi there'',
        \<lparr>cache = [generateCacheKey askMessages None \<mapsto> \<lparr>content = JStr ''Hi there'', timestamp = 2000\<rparr>],
         currentController = None,
         stored = Some [generateCacheKey askMessages None \<mapsto> \<lparr>content = JStr ''Hi there'', timestamp = 2000\<rparr>]\<rparr>,
        Fetch (buildRequest ''https://api.openai.com/v1'' ''sk'' ''gpt-4'' askMessages True None)
          # emitted cb [] [JStr ''Hi'', JStr '' there''])"
proof -
  let ?r = "\<lparr>status = 200, bodyText = Inr [], bodyJson = Inl SyntaxError,
             body = Some (Reader twoReads Done)\<rparr>"
  have r: "fetch (streamingWorld twoReads Done)
             (buildRequest ''https://api.openai.com/v1'' ''sk'' ''gpt-4'' askMessages True None)
           = Resolved ?r"
    by (simp add: streamingWorld_def)
  have k: "ok ?r" by (simp add: ok_def)
  have b: "body ?r = Some (Reader twoReads Done)" by simp
  have p: "parseJSON (streamingWorld twoReads Done) = parseExamples"
    by (simp add: streamingWorld_def)
  have w: "nowWrite (streamingWorld twoReads Done) = 2000"
    "setItemThrows (streamingWorld twoReads Done) = False"
    by (simp_all add: streamingWorld_def)
  have acc: "accumulated [JStr ''Hi'', JStr '' there''] = ''Hi there''"
    by (simp add: accumulated_def textOf_def)
  show ?thesis
    unfolding chatCompletionStream_resolved[OF r k b] p twoReads_deltas acc
    by (simp add: loopExit_def twoReads_no_sentinel setCachedResponse_def
        saveCache_def w newClient_def Let_def)
qed

text \<open>
  C8, at a callback that throws. The stream \<open>twoReads\<close> carries the deltas \<open>Hi\<close> and
  \<open> there\<close>, and the callback throws when it is handed \<open> there\<close>. The inner \<open>catch\<close>, which
  the source comments as ignoring the parsing errors of lines that are not JSON,
  swallows the exception of the callback too: the second delta is appended, so that the
  generator returns and caches \<open>Hi there\<close>, and the callback is called with it, but it is
  never yielded.
\<close>

theorem throwing_callback_loses_the_yield:
  "chatCompletionStream (streamingWorld twoReads Done) newClient
       askMessages ''gpt-4'' None ''sk'' ''https://api.openai.com/v1'' (Some throwsOnThere)
     = (Inr ''Hi there'',
        \<lparr>cache = [generateCacheKey askMessages None \<mapsto> \<lparr>content = JStr ''Hi there'', timestamp = 2000\<rparr>],
         currentController = None,
         stored = Some [generateCacheKey askMessages None \<mapsto> \<lparr>content = JStr ''Hi there'', timestamp = 2000\<rparr>]\<rparr>,
        [Fetch (buildRequest ''https://api.openai.com/v1'' ''sk'' ''gpt-4'' askMessages True None),
         OnChunk (JStr ''Hi''), Yield (JStr ''Hi''), OnChunk (JStr '' there'')])"
  unfolding twoReads_streamed_with by (simp add: throwsOnThere_def)

lemma sentinel_line_lines:
  "last (splitLines s) = [] \<Longrightarrow>
   completeLines (s @ ''data: [DONE]'' @ [CHR 0x0A]) = completeLines s @ [''data: [DONE]'']"
  using completeLines_append[of s "''data: [DONE]'' @ [CHR 0x0A]"]
  by (simp add: completeLines_def)

text \<open>
  C10. The response has arrived, the reads deliver \<open>chunks\<close>, none of whose complete lines
  is the sentinel, and the reader reports \<open>done\<close>. The generator returns the accumulated
  text and the table holds it under the fingerprint, with the time of the write. When
  the text of the stream ends with a newline, the call returns the same, leaves the same
  client and has the same events as a call whose stream is this one followed by the
  sentinel line.
\<close>

theorem stream_ending_without_sentinel_is_cached:
  assumes "fetch w (buildRequest baseUrl apiKey model ms True t) = Resolved r"
    and "ok r"
    and "body r = Some (Reader chunks Done)"
    and "\<not> list_ex isSentinel (completeLines (concat chunks))"
  shows "chatCompletionStream w this ms model t apiKey baseUrl cb
           = (Inr (accumulated (decodedDeltas (parseJSON w) (completeLines (concat chunks)))),
              (setCachedResponse w (this\<lparr>currentController := Some AbortController\<rparr>) ms t
                 (JStr (accumulated (decodedDeltas (parseJSON w) (completeLines (concat chunks))))))
                \<lparr>currentController := None\<rparr>,
              Fetch (buildRequest baseUrl apiKey model ms True t)
                # emitted cb [] (decodedDeltas (parseJSON w) (completeLines (concat chunks)))) \<and>
         cache (fst (snd (chatCompletionStream w this ms model t apiKey baseUrl cb)))
             (generateCacheKey ms t)
           = Some \<lparr>content = JStr (accumulated (decodedDeltas (parseJSON w) (completeLines (concat chunks)))),
                   timestamp = nowWrite w\<rparr> \<and>
         (last (splitLines (concat chunks)) = [] \<and>
          fetch w2 (buildRequest baseUrl apiKey model ms True t) = Resolved r2 \<and> ok r2 \<and>
          body r2 = Some (Reader (chunks @ [''data: [DONE]'' @ [CHR 0x0A]]) fin2) \<and>
          parseJSON w2 = parseJSON w \<and> nowWrite w2 = nowWrite w \<and>
          setItemThrows w2 = setItemThrows w \<longrightarrow>
            chatCompletionStream w2 this ms model t apiKey baseUrl cb
              = chatCompletionStream w this ms model t apiKey baseUrl cb)"
proof (intro conjI impI)
  show main: "chatCompletionStream w this ms model t apiKey baseUrl cb
           = (Inr (accumulated (decodedDeltas (parseJSON w) (completeLines (concat chunks)))),
              (setCachedResponse w (this\<lparr>currentController := Some AbortController\<rparr>) ms t
                 (JStr (accumulated (decodedDeltas (parseJSON w) (completeLines (concat chunks))))))
                \<lparr>currentController := None\<rparr>,
              Fetch (buildRequest baseUrl apiKey model ms True t)
                # emitted cb [] (decodedDeltas (parseJSON w) (completeLines (concat chunks))))"
    using assms(4)
    by (simp add: chatCompletionStream_resolved[OF assms(1) assms(2) assms(3)] loopExit_def)
  show "cache (fst (snd (chatCompletionStream w this ms model t apiKey baseUrl cb)))
             (generateCacheKey ms t)
           = Some \<lparr>content = JStr (accumulated (decodedDeltas (parseJSON w) (completeLines (concat chunks)))),
                   timestamp = nowWrite w\<rparr>"
    unfolding main by (simp add: setCachedResponse_def saveCache_def Let_def)
  assume a: "last (splitLines (concat chunks)) = [] \<and>
          fetch w2 (buildRequest baseUrl apiKey model ms True t) = Resolved r2 \<and> ok r2 \<and>
          body r2 = Some (Reader (chunks @ [''data: [DONE]'' @ [CHR 0x0A]]) fin2) \<and>
          parseJSON w2 = parseJSON w \<and> nowWrite w2 = nowWrite w \<and>
          setItemThrows w2 = setItemThrows w"
  then have 1: "fetch w2 (buildRequest baseUrl apiKey model ms True t) = Resolved r2"
    and 2: "ok r2"
    and 3: "body r2 = Some (Reader (chunks @ [''data: [DONE]'' @ [CHR 0x0A]]) fin2)"
    and e: "last (splitLines (concat chunks)) = []"
    and same: "parseJSON w2 = parseJSON w" "nowWrite w2 = nowWrite w"
      "setItemThrows w2 = setItemThrows w"
    by simp_all
  have lines: "completeLines (concat (chunks @ [''data: [DONE]'' @ [CHR 0x0A]]))
      = completeLines (concat chunks) @ [''data: [DONE]'']"
    using sentinel_line_lines[OF e] by simp
  have ds: "decodedDeltas (parseJSON w) (completeLines (concat chunks) @ [''data: [DONE]''])
      = decodedDeltas (parseJSON w) (completeLines (concat chunks))"
    using assms(4)
    by (simp add: decodedDeltas_append)
       (simp add: decodedDeltas_def isSentinel_def List.map_filter_simps)
  have ex: "loopExit (completeLines (concat chunks) @ [''data: [DONE]'']) fin2 = SawDone"
    by (simp add: loopExit_def isSentinel_def)
  have wr: "\<And>c v. setCachedResponse w2 c ms t v = setCachedResponse w c ms t v"
    using same by (simp add: setCachedResponse_def saveCache_def)
  show "chatCompletionStream w2 this ms model t apiKey baseUrl cb
              = chatCompletionStream w this ms model t apiKey baseUrl cb"
    unfolding main chatCompletionStream_resolved[OF 1 2 3] lines ds ex same(1) wr
    by simp
qed

lemma twoReads_ends_with_newline: "last (splitLines (concat twoReads)) = []"
  by (simp add: twoReads_def)

theorem stream_ending_without_sentinel_is_cached_witness:
  "chatCompletionStream (streamingWorld twoReads Done) newClient
       askMessages ''gpt-4'' None ''sk'' ''https://api.openai.com/v1'' (Some alwaysReturns)
     = (Inr ''Hi there'',
        \<lparr>cache = [generateCacheKey askMessages None \<mapsto> \<lparr>content = JStr ''Hi there'', timestamp = 2000\<rparr>],
         currentController = None,
         stored = Some [generateCacheKey askMessages None \<mapsto> \<lparr>content = JStr ''Hi there'', timestamp = 2000\<rparr>]\<rparr>,
        [Fetch (buildRequest ''https://api.openai.com/v1'' ''sk'' ''gpt-4'' askMessages True None),
         OnChunk (JStr ''Hi''), Yield (JStr ''Hi''),
         OnChunk (JStr '' there''), Yield (JStr '' there'')]) \<and>
   chatCompletionStream (streamingWorld (twoReads @ [''data: [DONE]'' @ [CHR 0x0A]]) Done) newClient
       askMessages ''gpt-4'' None ''sk'' ''https://api.openai.com/v1'' (Some alwaysReturns)
     = chatCompletionStream (streamingWorld twoReads Done) newClient
       askMessages ''gpt-4'' None ''sk'' ''https://api.openai.com/v1'' (Some alwaysReturns)"
proof -
  let ?req = "buildRequest ''https://api.openai.com/v1'' ''sk'' ''gpt-4'' askMessages True None"
  let ?r = "\<lparr>status = 200, bodyText = Inr [], bodyJson = Inl SyntaxError,
             body = Some (Reader twoReads Done)\<rparr>"
  let ?r2 = "\<lparr>status = 200, bodyText = Inr [], bodyJson = Inl SyntaxError,
              body = Some (Reader (twoReads @ [''data: [DONE]'' @ [CHR 0x0A]]) Done)\<rparr>"
  let ?w2 = "streamingWorld (twoReads @ [''data: [DONE]'' @ [CHR 0x0A]]) Done"
  have r: "fetch (streamingWorld twoReads Done) ?req = Resolved ?r"
    by (simp add: streamingWorld_def)
  have k: "ok ?r" by (simp add: ok_def)
  have b: "body ?r = Some (Reader twoReads Done)" by simp
  have p: "parseJSON (streamingWorld twoReads Done) = parseExamples"
    by (simp add: streamingWorld_def)
  have second: "last (splitLines (concat twoReads)) = [] \<and>
      fetch ?w2 ?req = Resolved ?r2 \<and> ok ?r2 \<and>
      body ?r2 = Some (Reader (twoReads @ [''data: [DONE]'' @ [CHR 0x0A]]) Done) \<and>
      parseJSON ?w2 = parseJSON (streamingWorld twoReads Done) \<and>
      nowWrite ?w2 = nowWrite (streamingWorld twoReads Done) \<and>
      setItemThrows ?w2 = setItemThrows (streamingWorld twoReads Done)"
    by (simp add: twoReads_ends_with_newline streamingWorld_def ok_def)
  have w: "nowWrite (streamingWorld twoReads Done) = 2000"
    "setItemThrows (streamingWorld twoReads Done) = False"
    by (simp_all add: streamingWorld_def)
  show ?thesis
    using stream_ending_without_sentinel_is_cached [OF r k b twoReads_no_sentinel,
        where this = newClient and cb = "Some alwaysReturns" and ?w2.0 = ?w2 and ?r2.0 = ?r2 and ?fin2.0 = Done]
      second
    by (simp add: p w twoReads_deltas alwaysReturns_def accumulated_def textOf_def
        setCachedResponse_def saveCache_def
        newClient_def Let_def)
qed

section \<open>The fingerprint leaves out the model, the endpoint, the key and the mode\<close>





section \<open>Loading the cache\<close>

text \<open>
  The stored text \<open>{"a":1}\<close> parses, to an object that is no table of entries; the
  constructor takes it as the cache, and \<open>getCacheSize\<close> returns 1.
\<close>

theorem foreign_blob_is_kept:
  \<open>getCacheSize (loadCache parseExamples (Item ''{"a":1}'')) = Inr 1\<close>
  by (simp add: loadCache_def parseExamples_def)

lemma null_blob_throws:
  "getCacheSize (loadCache parseExamples (Item ''null'')) = Inl TypeError"
  by (simp add: loadCache_def parseExamples_def)

text \<open>
  C9, as the code has it. When \<open>getItem\<close> throws, when nothing or the empty string is
  stored, and when the stored text does not parse, the cache after the constructor is
  \<open>{}\<close>, the value the field starts with, and its size is 0. A stored text that parses
  becomes the cache as it is.
\<close>

theorem loadCache_falls_back_when_reading_or_parsing_fails:
  "loadCache parse GetItemThrows = JObj [] \<and>
   loadCache parse NoItem = JObj [] \<and>
   loadCache parse (Item []) = JObj [] \<and>
   (parse s = None \<longrightarrow> loadCache parse (Item s) = JObj []) \<and>
   getCacheSize (JObj []) = Inr 0 \<and>
   (s \<noteq> [] \<and> parse s = Some v \<longrightarrow> loadCache parse (Item s) = v)"
  by (simp add: loadCache_def)

theorem loadCache_falls_back_when_reading_or_parsing_fails_witness:
  \<open>parseExamples ''not json'' = None \<and>
   loadCache parseExamples (Item ''not json'') = JObj [] \<and>
   getCacheSize (loadCache parseExamples (Item ''not json'')) = Inr 0 \<and>
   getCacheSize (loadCache parseExamples GetItemThrows) = Inr 0 \<and>
   ''{"a":1}'' \<noteq> [] \<and>
   parseExamples ''{"a":1}'' = Some (JObj [(''a'', JNum (Decimal False 1 1))]) \<and>
   loadCache parseExamples (Item ''{"a":1}'') = JObj [(''a'', JNum (Decimal False 1 1))]\<close>
proof -
  have n: "parseExamples ''not json'' = None" by (simp add: parseExamples_def)
  have a: \<open>parseExamples ''{"a":1}'' = Some (JObj [(''a'', JNum (Decimal False 1 1))])\<close>
    by (simp add: parseExamples_def)
  show ?thesis
    using loadCache_falls_back_when_reading_or_parsing_fails
        [where parse = parseExamples and s = "''not json''"]
      loadCache_falls_back_when_reading_or_parsing_fails
        [where parse = parseExamples and s = \<open>''{"a":1}''\<close>
           and v = "JObj [(''a'', JNum (Decimal False 1 1))]"]
      n a
    by simp
qed

end
